theory Spec2Isabelle
  imports Complex_Main
begin

section \<open>JavaScript values\<close>

text \<open>
  A JavaScript number is an IEEE double. The model keeps the three special values
  apart and reads every other double as the real number it denotes; \<open>-0\<close> is \<open>Finite 0\<close>.
  Addition and subtraction round their result to a double (\<open>fl\<close> below); the number a
  literal or a string denotes is taken as it is written.
\<close>

datatype jsnum = Finite real | PosInf | NegInf | NaN

text \<open>
  Rounding to the nearest double, ties to the even significand. \<open>ilog2 x\<close> is the
  exponent of a positive \<open>x\<close>: the \<open>k\<close> with \<open>2^k \<le> x < 2^(k+1)\<close>. A double has 53
  significant bits and an exponent of at least -1022, so its last place is
  \<open>2^(e - 52)\<close>; a result of magnitude \<open>2^1024\<close> or more is an infinity.
\<close>

function ilog2 :: "real \<Rightarrow> int" where
  "ilog2 x =
     (if x \<le> 0 then 0
      else if 2 \<le> x then ilog2 (x / 2) + 1
      else if x < 1 then ilog2 (x * 2) - 1
      else 0)"
  by pat_completeness auto
termination
proof (relation "measure (\<lambda>x. if 1 \<le> x then nat \<lceil>x\<rceil> else nat \<lceil>1 / x\<rceil> + 2)")
  show "wf (measure (\<lambda>x::real. if 1 \<le> x then nat \<lceil>x\<rceil> else nat \<lceil>1 / x\<rceil> + 2))"
    by simp
next
  have half: "\<lceil>y / 2\<rceil> < \<lceil>y\<rceil>" if "2 \<le> y" for y :: real
  proof -
    have "y / 2 \<le> y - 1" using that by simp
    then have "\<lceil>y / 2\<rceil> \<le> \<lceil>y - 1\<rceil>" by (rule ceiling_mono)
    then show ?thesis by simp
  qed
  fix x :: real
  assume "\<not> x \<le> 0" "2 \<le> x"
  then show "(x / 2, x) \<in> measure (\<lambda>x. if 1 \<le> x then nat \<lceil>x\<rceil> else nat \<lceil>1 / x\<rceil> + 2)"
    using half [of x] by simp
next
  have half: "\<lceil>y / 2\<rceil> < \<lceil>y\<rceil>" if "2 \<le> y" for y :: real
  proof -
    have "y / 2 \<le> y - 1" using that by simp
    then have "\<lceil>y / 2\<rceil> \<le> \<lceil>y - 1\<rceil>" by (rule ceiling_mono)
    then show ?thesis by simp
  qed
  fix x :: real
  assume a: "\<not> x \<le> 0" "\<not> 2 \<le> x" "x < 1"
  show "(x * 2, x) \<in> measure (\<lambda>x. if 1 \<le> x then nat \<lceil>x\<rceil> else nat \<lceil>1 / x\<rceil> + 2)"
  proof (cases "1 \<le> x * 2")
    case True
    have "\<lceil>x * 2\<rceil> \<le> 2" using a by (simp add: ceiling_le_iff)
    moreover have "1 < 1 / x" using a by simp
    then have "2 \<le> \<lceil>1 / x\<rceil>" by linarith
    ultimately have "nat \<lceil>x * 2\<rceil> < nat \<lceil>1 / x\<rceil> + 2" by linarith
    then show ?thesis using True a by simp
  next
    case False
    then have "2 \<le> 1 / x" using a by (simp add: field_simps)
    from half [OF this] have "\<lceil>1 / (x * 2)\<rceil> < \<lceil>1 / x\<rceil>" by (simp add: field_simps)
    moreover have "0 < \<lceil>1 / (x * 2)\<rceil>" using a by simp
    ultimately have "nat \<lceil>1 / (x * 2)\<rceil> + 2 < nat \<lceil>1 / x\<rceil> + 2" by linarith
    then show ?thesis using False a by simp
  qed
qed

declare ilog2.simps [simp del]

definition pow2 :: "int \<Rightarrow> real" where
  "pow2 k = (if 0 \<le> k then 2 ^ nat k else 1 / 2 ^ nat (- k))"

definition round_half_even :: "real \<Rightarrow> int" where
  "round_half_even q =
     (let f = \<lfloor>q\<rfloor>; d = q - real_of_int f
      in if d < 1 / 2 then f
         else if 1 / 2 < d then f + 1
         else if even f then f else f + 1)"

definition fl :: "real \<Rightarrow> jsnum" where
  "fl x =
     (if x = 0 then Finite 0
      else
        let e = max (ilog2 \<bar>x\<bar>) (- 1022);
            u = pow2 (e - 52);
            r = real_of_int (round_half_even (x / u)) * u
        in if pow2 1024 \<le> \<bar>r\<bar> then (if 0 < x then PosInf else NegInf) else Finite r)"


text \<open>
  The values a request can carry: the JSON values of a request body, the strings of a
  query string, an absent property (\<open>JUndefined\<close>), a \<open>Date\<close> object with its time value in
  milliseconds, and \<open>JObject\<close> for a plain (non-array) object.
\<close>

datatype jsval =
    JUndefined
  | JNull
  | JBool bool
  | JNumber jsnum
  | JString string
  | JDate int
  | JObject

datatype jstype = TUndefined | TObject | TBoolean | TNumber | TString

text \<open>\<open>typeof v\<close>.\<close>

fun typeof :: "jsval \<Rightarrow> jstype" where
  "typeof JUndefined = TUndefined"
| "typeof JNull = TObject"
| "typeof (JBool b) = TBoolean"
| "typeof (JNumber n) = TNumber"
| "typeof (JString s) = TString"
| "typeof (JDate t) = TObject"
| "typeof JObject = TObject"

text \<open>ToBoolean: what \<open>!v\<close> and \<open>v || w\<close> test.\<close>

fun truthy :: "jsval \<Rightarrow> bool" where
  "truthy JUndefined = False"
| "truthy JNull = False"
| "truthy (JBool b) = b"
| "truthy (JNumber n) = (n \<noteq> Finite 0 \<and> n \<noteq> NaN)"
| "truthy (JString s) = (s \<noteq> [])"
| "truthy (JDate t) = True"
| "truthy JObject = True"

text \<open>The comparisons \<open><\<close> and \<open><=\<close> on numbers: false as soon as one side is \<open>NaN\<close>.\<close>

fun js_lt :: "jsnum \<Rightarrow> jsnum \<Rightarrow> bool" where
  "js_lt NaN b = False"
| "js_lt a NaN = False"
| "js_lt (Finite a) (Finite b) = (a < b)"
| "js_lt PosInf b = False"
| "js_lt a NegInf = False"
| "js_lt NegInf b = True"
| "js_lt a PosInf = True"

definition js_le :: "jsnum \<Rightarrow> jsnum \<Rightarrow> bool" where
  "js_le a b = (a \<noteq> NaN \<and> b \<noteq> NaN \<and> \<not> js_lt b a)"

fun js_neg :: "jsnum \<Rightarrow> jsnum" where
  "js_neg (Finite a) = Finite (- a)"
| "js_neg PosInf = NegInf"
| "js_neg NegInf = PosInf"
| "js_neg NaN = NaN"

fun js_add :: "jsnum \<Rightarrow> jsnum \<Rightarrow> jsnum" where
  "js_add NaN b = NaN"
| "js_add a NaN = NaN"
| "js_add (Finite a) (Finite b) = fl (a + b)"
| "js_add PosInf NegInf = NaN"
| "js_add NegInf PosInf = NaN"
| "js_add PosInf b = PosInf"
| "js_add NegInf b = NegInf"
| "js_add a PosInf = PosInf"
| "js_add a NegInf = NegInf"

definition js_sub :: "jsnum \<Rightarrow> jsnum \<Rightarrow> jsnum" where
  "js_sub a b = js_add a (js_neg b)"

subsection \<open>Strings to numbers\<close>

text \<open>
  A string is a list of code units below 256. The white space and line terminators of
  the language in that range: TAB, LF, VT, FF, CR, SP and NBSP.
\<close>

definition is_ws :: "char \<Rightarrow> bool" where
  "is_ws c = (c \<in> set [CHR 0x09, CHR 0x0A, CHR 0x0B, CHR 0x0C, CHR 0x0D, CHR 0x20, CHR 0xA0])"

text \<open>\<open>String.prototype.trim\<close>.\<close>

definition trim :: "string \<Rightarrow> string" where
  "trim s = rev (dropWhile is_ws (rev (dropWhile is_ws s)))"

definition digit_chars :: "string" where
  "digit_chars = ''0123456789abcdef''"

text \<open>The value of a digit in a radix up to 16, \<open>None\<close> when it is not one.\<close>

definition digit_val :: "nat \<Rightarrow> char \<Rightarrow> nat option" where
  "digit_val radix c =
     (let l = (if c \<in> set ''ABCDEF'' then char_of (of_char c + (32::nat)) else c);
          i = length (takeWhile (\<lambda>d. d \<noteq> l) digit_chars)
      in if i < radix \<and> i < 16 then Some i else None)"

definition is_digit :: "nat \<Rightarrow> char \<Rightarrow> bool" where
  "is_digit radix c = (digit_val radix c \<noteq> None)"

definition digits_val :: "nat \<Rightarrow> string \<Rightarrow> nat" where
  "digits_val radix s = foldl (\<lambda>a c. radix * a + (case digit_val radix c of Some d \<Rightarrow> d | None \<Rightarrow> 0)) 0 s"

text \<open>ExponentPart, or nothing: the power of ten, \<open>None\<close> when the text is neither.\<close>

definition ExponentPart :: "string \<Rightarrow> int option" where
  "ExponentPart s =
     (case s of
        [] \<Rightarrow> Some 0
      | c # r \<Rightarrow>
          if c = CHR ''e'' \<or> c = CHR ''E'' then
            (let neg = (r \<noteq> [] \<and> hd r = CHR ''-'');
                 ds = (if r \<noteq> [] \<and> (hd r = CHR ''-'' \<or> hd r = CHR ''+'') then tl r else r)
             in if ds \<noteq> [] \<and> list_all (is_digit 10) ds
                then Some (if neg then - int (digits_val 10 ds) else int (digits_val 10 ds))
                else None)
          else None)"

definition scale10 :: "real \<Rightarrow> int \<Rightarrow> real" where
  "scale10 x e = (if 0 \<le> e then x * 10 ^ nat e else x / 10 ^ nat (- e))"

definition StrUnsignedDecimalLiteral :: "string \<Rightarrow> jsnum" where
  "StrUnsignedDecimalLiteral t =
     (if t = ''Infinity'' then PosInf
      else
        let ip = takeWhile (is_digit 10) t;
            r1 = dropWhile (is_digit 10) t;
            dot = (r1 \<noteq> [] \<and> hd r1 = CHR ''.'');
            fp = (if dot then takeWhile (is_digit 10) (tl r1) else []);
            r2 = (if dot then dropWhile (is_digit 10) (tl r1) else r1)
        in if ip = [] \<and> fp = [] then NaN
           else case ExponentPart r2 of
                  None \<Rightarrow> NaN
                | Some e \<Rightarrow>
                    Finite (scale10 (real (digits_val 10 ip)
                                     + real (digits_val 10 fp) / 10 ^ length fp) e))"

definition StrDecimalLiteral :: "string \<Rightarrow> jsnum" where
  "StrDecimalLiteral t =
     (case t of
        [] \<Rightarrow> NaN
      | c # r \<Rightarrow>
          if c = CHR ''+'' then StrUnsignedDecimalLiteral r
          else if c = CHR ''-'' then js_neg (StrUnsignedDecimalLiteral r)
          else StrUnsignedDecimalLiteral t)"

text \<open>The radix of a \<open>0x\<close>, \<open>0o\<close> or \<open>0b\<close> prefix.\<close>

definition prefix_radix :: "string \<Rightarrow> nat option" where
  "prefix_radix t =
     (case t of
        c0 # c1 # r \<Rightarrow>
          if c0 \<noteq> CHR ''0'' then None
          else if c1 = CHR ''x'' \<or> c1 = CHR ''X'' then Some 16
          else if c1 = CHR ''o'' \<or> c1 = CHR ''O'' then Some 8
          else if c1 = CHR ''b'' \<or> c1 = CHR ''B'' then Some 2
          else None
      | _ \<Rightarrow> None)"

text \<open>StringToNumber: the number a string denotes, \<open>NaN\<close> when it denotes none.\<close>

definition StringToNumber :: "string \<Rightarrow> jsnum" where
  "StringToNumber s =
     (let t = trim s
      in if t = [] then Finite 0
         else case prefix_radix t of
                Some radix \<Rightarrow>
                  (let ds = drop 2 t
                   in if ds \<noteq> [] \<and> list_all (is_digit radix) ds
                      then Finite (real (digits_val radix ds)) else NaN)
              | None \<Rightarrow> StrDecimalLiteral t)"

text \<open>ToNumber, which \<open>Number(v)\<close>, \<open>isNaN(v)\<close>, the comparisons and \<open>-\<close> apply.\<close>

fun ToNumber :: "jsval \<Rightarrow> jsnum" where
  "ToNumber JUndefined = NaN"
| "ToNumber JNull = Finite 0"
| "ToNumber (JBool b) = (if b then Finite 1 else Finite 0)"
| "ToNumber (JNumber n) = n"
| "ToNumber (JString s) = StringToNumber s"
| "ToNumber (JDate t) = Finite (real_of_int t)"
| "ToNumber JObject = NaN"

definition isNaN :: "jsval \<Rightarrow> bool" where
  "isNaN v = (ToNumber v = NaN)"

section \<open>Dates\<close>

text \<open>
  The time value of a \<open>Date\<close> is a number of milliseconds since the epoch, an \<open>int\<close>
  here; an invalid \<open>Date\<close> is \<open>None\<close>. The functions are those of the language
  definition (Day, DayFromYear, YearFromTime, MonthFromTime, DateFromTime, MakeDay,
  MakeDate, TimeClip). Local time is UTC plus a fixed offset \<open>tza\<close>: daylight saving is
  outside the model.
\<close>

definition msPerDay :: int where
  "msPerDay = 86400000"

definition Day :: "int \<Rightarrow> int" where
  "Day t = t div msPerDay"

definition DaysInYear :: "int \<Rightarrow> int" where
  "DaysInYear y =
     (if y mod 4 \<noteq> 0 then 365
      else if y mod 100 \<noteq> 0 then 366
      else if y mod 400 \<noteq> 0 then 365
      else 366)"

definition DayFromYear :: "int \<Rightarrow> int" where
  "DayFromYear y =
     365 * (y - 1970) + (y - 1969) div 4 - (y - 1901) div 100 + (y - 1601) div 400"

text \<open>
  YearFromTime: the largest year that starts no later than \<open>t\<close>. The quotient by the
  mean length of a year is that year or a neighbour of it, which two comparisons settle.
\<close>

definition YearFromTime :: "int \<Rightarrow> int" where
  "YearFromTime t =
     (let d = Day t; y = 1970 + (d * 400) div 146097
      in if d < DayFromYear y then y - 1
         else if DayFromYear (y + 1) \<le> d then y + 1
         else y)"

definition DayWithinYear :: "int \<Rightarrow> int" where
  "DayWithinYear t = Day t - DayFromYear (YearFromTime t)"

definition InLeapYear :: "int \<Rightarrow> int" where
  "InLeapYear t = (if DaysInYear (YearFromTime t) = 366 then 1 else 0)"

text \<open>The day within the year on which each month starts, \<open>l\<close> being 1 in a leap year.\<close>

definition MonthStarts :: "int \<Rightarrow> int list" where
  "MonthStarts l =
     [0, 31, 59 + l, 90 + l, 120 + l, 151 + l, 181 + l, 212 + l, 243 + l, 273 + l,
      304 + l, 334 + l]"

definition MonthFromTime :: "int \<Rightarrow> int" where
  "MonthFromTime t =
     int (length (filter (\<lambda>s. s \<le> DayWithinYear t) (MonthStarts (InLeapYear t)))) - 1"

definition DateFromTime :: "int \<Rightarrow> int" where
  "DateFromTime t =
     DayWithinYear t - MonthStarts (InLeapYear t) ! nat (MonthFromTime t) + 1"

text \<open>MakeDay on integers: a month outside 0..11 carries into the year.\<close>

definition MakeDay :: "int \<Rightarrow> int \<Rightarrow> int \<Rightarrow> int" where
  "MakeDay year month date =
     (let ym = year + month div 12;
          mn = month mod 12;
          l = (if DaysInYear ym = 366 then 1 else 0)
      in DayFromYear ym + MonthStarts l ! nat mn + date - 1)"

definition MakeDate :: "int \<Rightarrow> int \<Rightarrow> int" where
  "MakeDate day time = day * msPerDay + time"

definition TimeClip :: "int \<Rightarrow> int option" where
  "TimeClip t = (if 8640000000000000 < \<bar>t\<bar> then None else Some t)"

definition LocalTime :: "int \<Rightarrow> int \<Rightarrow> int" where
  "LocalTime tza t = t + tza"

definition UTC :: "int \<Rightarrow> int \<Rightarrow> int" where
  "UTC tza t = t - tza"

text \<open>ToIntegerOrInfinity on a finite number: the fraction is dropped.\<close>

definition js_trunc :: "real \<Rightarrow> int" where
  "js_trunc r = (if 0 \<le> r then \<lfloor>r\<rfloor> else \<lceil>r\<rceil>)"

text \<open>
  \<open>new Date(year, month, date)\<close>, the arguments already numbers: local midnight of that
  day. A year from 0 to 99 means 1900 plus it; an argument that is not finite gives an
  invalid date.
\<close>

definition new_Date :: "int \<Rightarrow> jsnum \<Rightarrow> jsnum \<Rightarrow> jsnum \<Rightarrow> int option" where
  "new_Date tza year month date =
     (case (year, month, date) of
        (Finite y, Finite m, Finite dt) \<Rightarrow>
          (let yi = js_trunc y;
               yr = (if 0 \<le> yi \<and> yi \<le> 99 then 1900 + yi else yi)
           in TimeClip (UTC tza (MakeDate (MakeDay yr (js_trunc m) (js_trunc dt)) 0)))
      | _ \<Rightarrow> None)"

text \<open>\<open>getDate()\<close> and \<open>getFullYear()\<close> of a valid date.\<close>

definition getDate :: "int \<Rightarrow> int \<Rightarrow> int" where
  "getDate tza t = DateFromTime (LocalTime tza t)"

definition getMonth :: "int \<Rightarrow> int \<Rightarrow> int" where
  "getMonth tza t = MonthFromTime (LocalTime tza t)"

definition getFullYear :: "int \<Rightarrow> int \<Rightarrow> int" where
  "getFullYear tza t = YearFromTime (LocalTime tza t)"

section \<open>The validator\<close>

definition allowedCategories :: "string list" where
  "allowedCategories = [''food'', ''health'', ''housing'', ''sport'', ''education'']"

text \<open>\<open>Array.prototype.includes\<close> on an array of strings: only an equal string is found.\<close>

definition array_includes :: "string list \<Rightarrow> jsval \<Rightarrow> bool" where
  "array_includes xs v = (case v of JString s \<Rightarrow> s \<in> set xs | _ \<Rightarrow> False)"

text \<open>
  \<open>validateCostInput\<close>. The call \<open>description.trim()\<close> is reached only for a string (the
  two tests before it short-circuit), so the other cases of that test are never read.
\<close>

definition validateCostInput :: "jsval \<Rightarrow> jsval \<Rightarrow> jsval \<Rightarrow> jsval \<Rightarrow> string option" where
  "validateCostInput description category userid sum_in =
     (if \<not> truthy description \<or> typeof description \<noteq> TString
          \<or> (case description of JString s \<Rightarrow> trim s = [] | _ \<Rightarrow> False)
      then Some ''Description is required and must be a string.''
      else if \<not> array_includes allowedCategories category
      then Some ''Category must be one of: food, health, housing, sport, education.''
      else if \<not> truthy userid \<or> typeof userid \<noteq> TNumber \<or> js_le (ToNumber userid) (Finite 0)
      then Some ''User ID must be a positive number.''
      else if \<not> truthy sum_in \<or> typeof sum_in \<noteq> TNumber \<or> js_le (ToNumber sum_in) (Finite 0)
      then Some ''Sum must be a positive number.''
      else None)"

text \<open>The four rules in the words of the specification.\<close>

definition spec_description_ok :: "jsval \<Rightarrow> bool" where
  "spec_description_ok v =
     (case v of JString s \<Rightarrow> s \<noteq> [] \<and> \<not> list_all is_ws s | _ \<Rightarrow> False)"

definition spec_category_ok :: "jsval \<Rightarrow> bool" where
  "spec_category_ok v =
     (v = JString ''food'' \<or> v = JString ''health'' \<or> v = JString ''housing''
      \<or> v = JString ''sport'' \<or> v = JString ''education'')"

definition spec_positive_number :: "jsval \<Rightarrow> bool" where
  "spec_positive_number v =
     (case v of JNumber (Finite r) \<Rightarrow> 0 < r | JNumber PosInf \<Rightarrow> True | _ \<Rightarrow> False)"

section \<open>The store\<close>

text \<open>
  The two collections, in insertion order. \<open>user_oid\<close> and \<open>cost_oid\<close> are the \<open>_id\<close> of
  a record, \<open>user_id\<close> the numeric \<open>id\<close> of a user, \<open>user\<close> the \<open>_id\<close> of the owning user;
  \<open>createdAt\<close> and \<open>updatedAt\<close> come from the schema option \<open>timestamps\<close>. The fields have
  the types the schemas declare. A \<open>catch\<close> branch is reached through what the schema
  rejects on \<open>save\<close>, through an identifier or a value of an update that the driver
  refuses to convert, and through what the code of the controller itself raises.
\<close>

type_synonym objectid = nat

record user =
  user_oid :: objectid
  user_id :: jsnum
  first_name :: string
  last_name :: string
  birthday :: int
  marital_status :: string
  user_createdAt :: int
  user_updatedAt :: int

record cost =
  cost_oid :: objectid
  description :: string
  category :: string
  userid :: jsnum
  user :: objectid
  sum_c :: jsnum
  date :: int
  createdAt :: int
  updatedAt :: int

record store =
  users :: "user list"
  costs :: "cost list"
  next_oid :: objectid

text \<open>
  What a call reads from outside: the clock (\<open>Date.now()\<close>), the offset of local time,
  and the conversions of the driver, which are not part of the repository: of a
  caller-supplied value to the schema types \<open>Date\<close>, \<open>String\<close> and \<open>Number\<close>, and of the
  text of an identifier to an \<open>ObjectId\<close>. A conversion gives \<open>None\<close> when the driver
  refuses the value and raises its \<open>CastError\<close>.
\<close>

record env =
  now :: int
  tza :: int
  castDate :: "jsval \<Rightarrow> int option"
  castString :: "jsval \<Rightarrow> string option"
  castNumber :: "jsval \<Rightarrow> jsnum option"
  castObjectId :: "string \<Rightarrow> objectid option"

text \<open>What a service function returns: \<open>{status, data}\<close> or \<open>{status, error}\<close>.\<close>

datatype 'a reply = Data nat 'a | Error nat string

fun status :: "'a reply \<Rightarrow> nat" where
  "status (Data s d) = s"
| "status (Error s e) = s"

text \<open>An object of a response body: its keys in order, with their values.\<close>

type_synonym json_object = "(string \<times> jsval) list"

definition User_findOne :: "store \<Rightarrow> jsnum \<Rightarrow> user option" where
  "User_findOne st i = find (\<lambda>u. user_id u = i) (users st)"

definition Cost_findById :: "store \<Rightarrow> objectid \<Rightarrow> cost option" where
  "Cost_findById st i = find (\<lambda>c. cost_oid c = i) (costs st)"

text \<open>
  \<open>save\<close> of a new cost: the schema requires a description (and the empty string counts
  as none), a category of its \<open>enum\<close> and a date it could convert; the record gets a
  fresh \<open>_id\<close> and its timestamps, and goes to the end of the collection.
\<close>

definition Cost_save ::
  "env \<Rightarrow> store \<Rightarrow> string \<Rightarrow> string \<Rightarrow> jsnum \<Rightarrow> objectid \<Rightarrow> jsnum \<Rightarrow> int option
     \<Rightarrow> string + (cost \<times> store)" where
  "Cost_save e st description' category' userid' user' sum_in date' =
     (case date' of
        None \<Rightarrow> Inl ''Cost validation failed''
      | Some d \<Rightarrow>
          if description' = [] \<or> category' \<notin> set allowedCategories
          then Inl ''Cost validation failed''
          else
            let savedCost = \<lparr> cost_oid = next_oid st, description = description',
                              category = category', userid = userid', user = user',
                              sum_c = sum_in, date = d, createdAt = now e, updatedAt = now e \<rparr>
            in Inr (savedCost, st \<lparr> costs := costs st @ [savedCost], next_oid := Suc (next_oid st) \<rparr>))"

section \<open>The cost controller\<close>

text \<open>
  \<open>createCost\<close>, on the five properties of \<open>costData\<close>. \<open>date || Date.now()\<close> keeps a
  truthy \<open>date\<close>, which the schema converts, and replaces any other by the clock.
\<close>

definition createCost ::
  "env \<Rightarrow> store \<Rightarrow> string \<Rightarrow> string \<Rightarrow> jsnum \<Rightarrow> jsnum \<Rightarrow> jsval \<Rightarrow> json_object reply \<times> store" where
  "createCost e st description' category' userid' sum_in date' =
     (case User_findOne st userid' of
        None \<Rightarrow> (Error 404 ''User not found. Cannot add cost.'', st)
      | Some u \<Rightarrow>
          (case Cost_save e st description' category' userid' (user_oid u) sum_in
                  (if truthy date' then castDate e date' else Some (now e)) of
             Inl msg \<Rightarrow> (Error 500 msg, st)
           | Inr (savedCost, st') \<Rightarrow>
               (Data 201
                  [(''description'', JString (description savedCost)),
                   (''category'', JString (category savedCost)),
                   (''userid'', JNumber (userid savedCost)),
                   (''sum'', JNumber (sum_c savedCost)),
                   (''date'', JDate (date savedCost))],
                st')))"

text \<open>
  \<open>addCost\<close>: the body's properties are validated, then passed on. After a successful
  validation the description and the category are strings and the other two numbers,
  which is all that \<open>str_of\<close> and \<open>num_of\<close> are applied to.
\<close>

fun str_of :: "jsval \<Rightarrow> string" where
  "str_of (JString s) = s"
| "str_of v = []"

fun num_of :: "jsval \<Rightarrow> jsnum" where
  "num_of (JNumber n) = n"
| "num_of v = NaN"

definition addCost ::
  "env \<Rightarrow> store \<Rightarrow> jsval \<Rightarrow> jsval \<Rightarrow> jsval \<Rightarrow> jsval \<Rightarrow> jsval \<Rightarrow> json_object reply \<times> store" where
  "addCost e st description' category' userid' sum_in date' =
     (case validateCostInput description' category' userid' sum_in of
        Some validationError \<Rightarrow> (Error 400 validationError, st)
      | None \<Rightarrow>
          createCost e st (str_of description') (str_of category') (num_of userid')
            (num_of sum_in) date')"

text \<open>
  \<open>updateData\<close> is the body of the request: each property of the schema is there, with
  some value, or not. \<open>findByIdAndUpdate\<close> first converts the identifier and the values
  that are there to the types of the schema, and raises when one of them cannot be
  converted. It does not run the validators of the schema: the converted values are set
  on the first record with that \<open>_id\<close>, and with \<open>new: true\<close> the record as updated is
  returned, or nothing when there is none. The text of the \<open>CastError\<close> is the driver's
  own and stands here as \<open>CastError\<close>.
\<close>

record updateData =
  upd_description :: "jsval option"
  upd_category :: "jsval option"
  upd_userid :: "jsval option"
  upd_user :: "jsval option"
  upd_sum :: "jsval option"
  upd_date :: "jsval option"

text \<open>The update as converted: the values to set.\<close>

record castUpdate =
  set_description :: "string option"
  set_category :: "string option"
  set_userid :: "jsnum option"
  set_user :: "objectid option"
  set_sum :: "jsnum option"
  set_date :: "int option"

text \<open>
  A property that is absent stays absent; one that is there is converted, and the whole
  is \<open>None\<close> when the conversion fails.
\<close>

definition cast_field :: "(jsval \<Rightarrow> 'a option) \<Rightarrow> jsval option \<Rightarrow> 'a option option" where
  "cast_field conv p =
     (case p of
        None \<Rightarrow> Some None
      | Some v \<Rightarrow> (case conv v of None \<Rightarrow> None | Some x \<Rightarrow> Some (Some x)))"

text \<open>The \<open>user\<close> reference is an \<open>ObjectId\<close>, given as the text of one.\<close>

definition castRef :: "env \<Rightarrow> jsval \<Rightarrow> objectid option" where
  "castRef e v = (case v of JString s \<Rightarrow> castObjectId e s | _ \<Rightarrow> None)"

definition cast_update :: "env \<Rightarrow> updateData \<Rightarrow> castUpdate option" where
  "cast_update e upd =
     (case cast_field (castString e) (upd_description upd) of None \<Rightarrow> None | Some d \<Rightarrow>
      case cast_field (castString e) (upd_category upd) of None \<Rightarrow> None | Some c \<Rightarrow>
      case cast_field (castNumber e) (upd_userid upd) of None \<Rightarrow> None | Some u \<Rightarrow>
      case cast_field (castRef e) (upd_user upd) of None \<Rightarrow> None | Some r \<Rightarrow>
      case cast_field (castNumber e) (upd_sum upd) of None \<Rightarrow> None | Some s \<Rightarrow>
      case cast_field (castDate e) (upd_date upd) of None \<Rightarrow> None | Some t \<Rightarrow>
        Some \<lparr> set_description = d, set_category = c, set_userid = u, set_user = r,
               set_sum = s, set_date = t \<rparr>)"

definition merge_update :: "int \<Rightarrow> castUpdate \<Rightarrow> cost \<Rightarrow> cost" where
  "merge_update t upd c =
     c \<lparr> description := (case set_description upd of Some v \<Rightarrow> v | None \<Rightarrow> description c),
         category := (case set_category upd of Some v \<Rightarrow> v | None \<Rightarrow> category c),
         userid := (case set_userid upd of Some v \<Rightarrow> v | None \<Rightarrow> userid c),
         user := (case set_user upd of Some v \<Rightarrow> v | None \<Rightarrow> user c),
         sum_c := (case set_sum upd of Some v \<Rightarrow> v | None \<Rightarrow> sum_c c),
         date := (case set_date upd of Some v \<Rightarrow> v | None \<Rightarrow> date c),
         updatedAt := t \<rparr>"

fun update_first :: "('a \<Rightarrow> bool) \<Rightarrow> ('a \<Rightarrow> 'a) \<Rightarrow> 'a list \<Rightarrow> 'a list" where
  "update_first P f [] = []"
| "update_first P f (x # xs) = (if P x then f x # xs else x # update_first P f xs)"

definition Cost_findByIdAndUpdate ::
  "env \<Rightarrow> store \<Rightarrow> string \<Rightarrow> updateData \<Rightarrow> string + (cost option \<times> store)" where
  "Cost_findByIdAndUpdate e st costId upd =
     (case castObjectId e costId of
        None \<Rightarrow> Inl ''CastError''
      | Some i \<Rightarrow>
          (case cast_update e upd of
             None \<Rightarrow> Inl ''CastError''
           | Some u \<Rightarrow>
               (case Cost_findById st i of
                  None \<Rightarrow> Inr (None, st)
                | Some c \<Rightarrow>
                    Inr (Some (merge_update (now e) u c),
                         st \<lparr> costs := update_first (\<lambda>c. cost_oid c = i)
                                          (merge_update (now e) u) (costs st) \<rparr>))))"

text \<open>\<open>updateCost\<close>: what the driver raises is caught and answered with 500.\<close>

definition updateCost :: "env \<Rightarrow> store \<Rightarrow> string \<Rightarrow> updateData \<Rightarrow> cost reply \<times> store" where
  "updateCost e st costId upd =
     (case Cost_findByIdAndUpdate e st costId upd of
        Inl msg \<Rightarrow> (Error 500 msg, st)
      | Inr (None, st') \<Rightarrow> (Error 404 ''Cost not found.'', st')
      | Inr (Some updatedCost, st') \<Rightarrow> (Data 200 updatedCost, st'))"

text \<open>\<open>editCost\<close> hands the identifier of the path and the body to \<open>updateCost\<close>.\<close>

definition editCost :: "env \<Rightarrow> store \<Rightarrow> string \<Rightarrow> updateData \<Rightarrow> cost reply \<times> store" where
  "editCost e st costId upd = updateCost e st costId upd"

subsection \<open>The monthly report\<close>

record entry =
  entry_sum :: jsnum
  entry_description :: string
  entry_day :: int

text \<open>
  An object whose values are arrays, as the list of its own keys in insertion order with
  their values: \<open>obj[k] = v\<close> replaces the value of a key that is there and adds a key
  that is not.
\<close>

type_synonym grouped = "(string \<times> entry list) list"

definition obj_set :: "grouped \<Rightarrow> string \<Rightarrow> entry list \<Rightarrow> grouped" where
  "obj_set obj k v =
     (if k \<in> fst ` set obj then map (\<lambda>(k', v'). if k' = k then (k', v) else (k', v')) obj
      else obj @ [(k, v)])"

record report =
  report_userid :: jsnum
  report_year :: jsnum
  report_month :: jsnum
  report_costs :: "grouped list"

text \<open>
  \<open>Cost.find\<close> with the filter of the report: the user's costs whose date is between
  the two bounds, both included. No date is between bounds of which one is invalid.
\<close>

definition Cost_find :: "store \<Rightarrow> jsnum \<Rightarrow> int option \<Rightarrow> int option \<Rightarrow> cost list" where
  "Cost_find st uid startDate endDate =
     filter (\<lambda>c. userid c = uid
                \<and> (case startDate of Some s \<Rightarrow> s \<le> date c | None \<Rightarrow> False)
                \<and> (case endDate of Some d \<Rightarrow> date c \<le> d | None \<Rightarrow> False))
       (costs st)"

definition report_entry :: "int \<Rightarrow> cost \<Rightarrow> entry" where
  "report_entry z c =
     \<lparr> entry_sum = sum_c c, entry_description = description c, entry_day = getDate z (date c) \<rparr>"

text \<open>
  The second \<open>forEach\<close>: \<open>groupedCosts[cost.category].push(...)\<close>. A category that is not
  a key of \<open>groupedCosts\<close> has no array to push to, the call raises a \<open>TypeError\<close> (\<open>None\<close>
  here) and the loop ends there.
\<close>

fun push_costs :: "int \<Rightarrow> grouped \<Rightarrow> cost list \<Rightarrow> grouped option" where
  "push_costs z groupedCosts [] = Some groupedCosts"
| "push_costs z groupedCosts (c # cs) =
     (case map_of groupedCosts (category c) of
        None \<Rightarrow> None
      | Some arr \<Rightarrow>
          push_costs z (obj_set groupedCosts (category c) (arr @ [report_entry z c])) cs)"

text \<open>
  \<open>fetchMonthlyReport\<close>. The arguments are what the query string holds; \<open>new Date\<close>,
  \<open>month - 1\<close> and \<open>Number\<close> turn them into numbers. The text of the \<open>TypeError\<close> is the
  engine's own and stands here as \<open>TypeError\<close>.
\<close>

definition fetchMonthlyReport :: "env \<Rightarrow> store \<Rightarrow> jsval \<Rightarrow> jsval \<Rightarrow> jsval \<Rightarrow> report reply" where
  "fetchMonthlyReport e st id' year month =
     (let startDate = new_Date (tza e) (ToNumber year) (js_sub (ToNumber month) (Finite 1)) (Finite 1);
          endDate = new_Date (tza e) (ToNumber year) (ToNumber month) (Finite 0);
          found = Cost_find st (ToNumber id') startDate endDate;
          categories = [''food'', ''health'', ''housing'', ''sport'', ''education''];
          groupedCosts = foldl (\<lambda>g category'. obj_set g category' []) [] categories
      in case push_costs (tza e) groupedCosts found of
           None \<Rightarrow> Error 500 ''TypeError''
         | Some groupedCosts' \<Rightarrow>
             Data 200
               \<lparr> report_userid = ToNumber id', report_year = ToNumber year,
                 report_month = ToNumber month,
                 report_costs =
                   map (\<lambda>category'.
                          [(category', case map_of groupedCosts' category' of
                                         Some arr \<Rightarrow> arr | None \<Rightarrow> [])])
                     (map fst groupedCosts') \<rparr>)"

text \<open>\<open>getMonthlyReport\<close>: the three guards on the query, then the report.\<close>

definition getMonthlyReport :: "env \<Rightarrow> store \<Rightarrow> jsval \<Rightarrow> jsval \<Rightarrow> jsval \<Rightarrow> report reply" where
  "getMonthlyReport e st id' year month =
     (if \<not> truthy id' \<or> isNaN id' then Error 400 ''Valid user ID is required.''
      else if \<not> truthy year \<or> isNaN year \<or> js_lt (ToNumber year) (Finite 2000)
              \<or> js_lt (Finite (real_of_int (getFullYear (tza e) (now e)))) (ToNumber year)
      then Error 400 ''Valid year is required.''
      else if \<not> truthy month \<or> isNaN month \<or> js_lt (ToNumber month) (Finite 1)
              \<or> js_lt (Finite 12) (ToNumber month)
      then Error 400 ''Month must be between 1 and 12.''
      else fetchMonthlyReport e st id' year month)"

section \<open>The user controller\<close>

text \<open>
  \<open>save\<close> of a new user: the schema requires the three strings (the empty string counts
  as none) and a birthday it could convert.
\<close>

definition User_save ::
  "env \<Rightarrow> store \<Rightarrow> jsnum \<Rightarrow> string \<Rightarrow> string \<Rightarrow> jsval \<Rightarrow> string \<Rightarrow> string + (user \<times> store)" where
  "User_save e st id' first_name' last_name' birthday' marital_status' =
     (case castDate e birthday' of
        None \<Rightarrow> Inl ''User validation failed''
      | Some b \<Rightarrow>
          if first_name' = [] \<or> last_name' = [] \<or> marital_status' = []
          then Inl ''User validation failed''
          else
            let savedUser = \<lparr> user_oid = next_oid st, user_id = id', first_name = first_name',
                              last_name = last_name', birthday = b,
                              marital_status = marital_status',
                              user_createdAt = now e, user_updatedAt = now e \<rparr>
            in Inr (savedUser, st \<lparr> users := users st @ [savedUser], next_oid := Suc (next_oid st) \<rparr>))"

text \<open>\<open>createUser\<close>, on the five properties of \<open>userData\<close>.\<close>

definition createUser ::
  "env \<Rightarrow> store \<Rightarrow> jsnum \<Rightarrow> string \<Rightarrow> string \<Rightarrow> jsval \<Rightarrow> string \<Rightarrow> user reply \<times> store" where
  "createUser e st id' first_name' last_name' birthday' marital_status' =
     (case User_findOne st id' of
        Some existingUser \<Rightarrow> (Error 400 ''User ID already exists.'', st)
      | None \<Rightarrow>
          (case User_save e st id' first_name' last_name' birthday' marital_status' of
             Inl msg \<Rightarrow> (Error 500 msg, st)
           | Inr (savedUser, st') \<Rightarrow> (Data 201 savedUser, st')))"




section \<open>Example data\<close>

text \<open>
  A clock at 2025-02-10 10:00 UTC, local time UTC, and conversions that take a value
  of the type itself: a number of milliseconds or a \<open>Date\<close> for a date, a string for a
  string, a number other than \<open>NaN\<close> for a number, 24 hexadecimal digits for an
  identifier. A store with the user 1001 and no cost.
\<close>

definition env1 :: env where
  "env1 = \<lparr> now = 1739181600000, tza = 0,
            castDate = (\<lambda>v. case v of JNumber (Finite r) \<Rightarrow> TimeClip (js_trunc r)
                                     | JDate t \<Rightarrow> TimeClip t | _ \<Rightarrow> None),
            castString = (\<lambda>v. case v of JString s \<Rightarrow> Some s | _ \<Rightarrow> None),
            castNumber = (\<lambda>v. case v of JNumber n \<Rightarrow> (if n = NaN then None else Some n)
                                       | _ \<Rightarrow> None),
            castObjectId = (\<lambda>s. if length s = 24 \<and> list_all (is_digit 16) s
                                 then Some (digits_val 16 s) else None) \<rparr>"

definition alice :: user where
  "alice = \<lparr> user_oid = 0, user_id = Finite 1001, first_name = ''A'', last_name = ''B'',
             birthday = 631152000000, marital_status = ''single'',
             user_createdAt = 1739000000000, user_updatedAt = 1739000000000 \<rparr>"

definition store1 :: store where
  "store1 = \<lparr> users = [alice], costs = [], next_oid = 1 \<rparr>"

text \<open>A cost of user 1001 with the given \<open>_id\<close>, category, sum and date.\<close>

definition cost_of :: "objectid \<Rightarrow> string \<Rightarrow> real \<Rightarrow> int \<Rightarrow> cost" where
  "cost_of i c s t =
     \<lparr> cost_oid = i, description = ''milk'', category = c, userid = Finite 1001, user = 0,
       sum_c = Finite s, date = t, createdAt = t, updatedAt = t \<rparr>"

text \<open>Three costs of user 1001, of sums 8, 12.5 and 3, and one of another user.\<close>

definition store2 :: store where
  "store2 = \<lparr> users = [alice],
              costs = [cost_of 1 ''food'' 8 1738368000000, cost_of 2 ''health'' 12.5 1738454400000,
                       (cost_of 3 ''food'' 100 1738454400000) \<lparr> userid := Finite 7 \<rparr>,
                       cost_of 4 ''sport'' 3 1740700800000],
              next_oid = 5 \<rparr>"

text \<open>
  Two costs of user 1001 on 2024-02-29, the last day of that February: one at 00:00:00.000
  and one at 12:00:00.000.
\<close>

definition store3 :: store where
  "store3 = \<lparr> users = [alice],
              costs = [cost_of 1 ''food'' 8 1709164800000, cost_of 2 ''food'' 5 1709208000000],
              next_oid = 3 \<rparr>"

text \<open>An update whose description, category and sum the validator would refuse.\<close>

definition upd1 :: updateData where
  "upd1 = \<lparr> upd_description = Some (JString '' ''), upd_category = Some (JString ''travel''),
            upd_userid = None, upd_user = None, upd_sum = Some (JNumber (Finite (- 5))),
            upd_date = None \<rparr>"

text \<open>An update whose sum is no number, and one that only sets the category.\<close>

definition upd2 :: updateData where
  "upd2 = \<lparr> upd_description = None, upd_category = None, upd_userid = None, upd_user = None,
            upd_sum = Some (JString ''abc''), upd_date = None \<rparr>"

definition upd3 :: updateData where
  "upd3 = \<lparr> upd_description = None, upd_category = Some (JString ''travel''),
            upd_userid = None, upd_user = None, upd_sum = None, upd_date = None \<rparr>"

text \<open>
  The store after \<open>POST /api/add\<close> of a valid cost of user 1001 without a date, and the
  store after \<open>PUT /api/000000000000000000000001\<close> has then set its category.
\<close>

definition store4 :: store where
  "store4 = snd (addCost env1 store1 (JString ''milk'') (JString ''food'')
                   (JNumber (Finite 1001)) (JNumber (Finite 8)) JUndefined)"

definition store5 :: store where
  "store5 = snd (editCost env1 store4 ''000000000000000000000001'' upd3)"


section \<open>Properties of the validator\<close>

lemma trim_Nil_iff: "trim s = [] \<longleftrightarrow> list_all is_ws s"
proof
  assume "trim s = []"
  then have a: "\<forall>x\<in>set (dropWhile is_ws s). is_ws x"
    by (simp add: trim_def)
  have "dropWhile is_ws s = []"
  proof (rule ccontr)
    assume n: "dropWhile is_ws s \<noteq> []"
    then have "\<not> is_ws (hd (dropWhile is_ws s))" by (rule hd_dropWhile)
    moreover have "hd (dropWhile is_ws s) \<in> set (dropWhile is_ws s)" using n by simp
    ultimately show False using a by blast
  qed
  then show "list_all is_ws s" by (simp add: list_all_iff)
next
  assume "list_all is_ws s"
  then have d: "dropWhile is_ws s = []" by (simp add: list_all_iff)
  show "trim s = []" unfolding trim_def d by simp
qed

lemma description_rule:
  "(\<not> truthy d \<or> typeof d \<noteq> TString \<or> (case d of JString s \<Rightarrow> trim s = [] | _ \<Rightarrow> False))
   = (\<not> spec_description_ok d)"
  by (cases d) (auto simp: spec_description_ok_def trim_Nil_iff)

lemma category_rule: "array_includes allowedCategories c = spec_category_ok c"
  by (cases c) (auto simp: array_includes_def allowedCategories_def spec_category_ok_def)

lemma number_rule:
  "(\<not> truthy u \<or> typeof u \<noteq> TNumber \<or> js_le (ToNumber u) (Finite 0)) = (\<not> spec_positive_number u)"
proof (cases u)
  case (JNumber n)
  then show ?thesis by (cases n) (auto simp: spec_positive_number_def js_le_def)
qed (simp_all add: spec_positive_number_def)

text \<open>
  C4: \<open>validateCostInput\<close> checks its four rules in the order description, category,
  user id, sum, and returns the message of the first rule that fails: the description is
  a string that is not empty and not only white space, the category is one of the five,
  the user id is a positive number, the sum is a positive number. It returns \<open>null\<close>
  (\<open>None\<close>) exactly when the four rules hold. It is a function of its four arguments
  alone, with a value for every quadruple: it reads no state and raises nothing.
\<close>

theorem validateCostInput_first_failure:
  "validateCostInput d c u s =
     (if \<not> spec_description_ok d then Some ''Description is required and must be a string.''
      else if \<not> spec_category_ok c
      then Some ''Category must be one of: food, health, housing, sport, education.''
      else if \<not> spec_positive_number u then Some ''User ID must be a positive number.''
      else if \<not> spec_positive_number s then Some ''Sum must be a positive number.''
      else None)
   \<and> ((validateCostInput d c u s = None)
        = (spec_description_ok d \<and> spec_category_ok c \<and> spec_positive_number u
           \<and> spec_positive_number s))"
  unfolding validateCostInput_def description_rule category_rule number_rule
  by simp

theorem validateCostInput_first_failure_witness:
  "validateCostInput (JString '' '') (JString ''travel'') (JNumber (Finite 0)) (JNumber (Finite (-5)))
     = Some ''Description is required and must be a string.''
   \<and> validateCostInput (JString ''milk'') (JString ''travel'') (JNumber (Finite 0)) (JNumber (Finite (-5)))
     = Some ''Category must be one of: food, health, housing, sport, education.''
   \<and> validateCostInput (JString ''milk'') (JString ''food'') (JNumber (Finite 0)) (JNumber (Finite (-5)))
     = Some ''User ID must be a positive number.''
   \<and> validateCostInput (JString ''milk'') (JString ''food'') (JNumber (Finite 1001)) (JNumber (Finite (-5)))
     = Some ''Sum must be a positive number.''
   \<and> validateCostInput (JString ''milk'') (JString ''food'') (JNumber (Finite 1001)) (JNumber (Finite 8))
     = None"
  using validateCostInput_first_failure [of "JString '' ''" "JString ''travel''" "JNumber (Finite 0)" "JNumber (Finite (-5))"]
    validateCostInput_first_failure [of "JString ''milk''" "JString ''travel''" "JNumber (Finite 0)" "JNumber (Finite (-5))"]
    validateCostInput_first_failure [of "JString ''milk''" "JString ''food''" "JNumber (Finite 0)" "JNumber (Finite (-5))"]
    validateCostInput_first_failure [of "JString ''milk''" "JString ''food''" "JNumber (Finite 1001)" "JNumber (Finite (-5))"]
    validateCostInput_first_failure [of "JString ''milk''" "JString ''food''" "JNumber (Finite 1001)" "JNumber (Finite 8)"]
  by (simp add: spec_description_ok_def spec_category_ok_def spec_positive_number_def is_ws_def)

section \<open>Properties of creation\<close>

lemma find_None_users: "(User_findOne st i = None) = (\<forall>u\<in>set (users st). user_id u \<noteq> i)"
  by (auto simp: User_findOne_def find_None_iff)

text \<open>
  C3: when the user id of a new expense is the id of no user, \<open>createCost\<close> answers 404
  with the message \<open>User not found. Cannot add cost.\<close> and the store it leaves is the
  store it found: the lookup of the user comes before any write. The same holds for
  \<open>addCost\<close> on a body that passes the validation.
\<close>

theorem createCost_unknown_user:
  "\<forall>x\<in>set (users st). user_id x \<noteq> u \<Longrightarrow>
     createCost e st d c u s dt = (Error 404 ''User not found. Cannot add cost.'', st)
     \<and> (validateCostInput vd vc (JNumber u) vs = None \<longrightarrow>
          addCost e st vd vc (JNumber u) vs dt = (Error 404 ''User not found. Cannot add cost.'', st))"
  by (simp add: createCost_def addCost_def find_None_users [symmetric])

theorem createCost_unknown_user_witness:
  "map user_id (users store1) = [Finite 1001]
   \<and> createCost env1 store1 ''milk'' ''food'' (Finite 999999) (Finite 8) JUndefined
       = (Error 404 ''User not found. Cannot add cost.'', store1)
   \<and> validateCostInput (JString ''milk'') (JString ''food'') (JNumber (Finite 999999)) (JNumber (Finite 8)) = None
   \<and> addCost env1 store1 (JString ''milk'') (JString ''food'') (JNumber (Finite 999999)) (JNumber (Finite 8)) JUndefined
       = (Error 404 ''User not found. Cannot add cost.'', store1)"
proof -
  have h: "\<forall>x\<in>set (users store1). user_id x \<noteq> Finite 999999"
    by (simp add: store1_def alice_def)
  have v: "validateCostInput (JString ''milk'') (JString ''food'') (JNumber (Finite 999999)) (JNumber (Finite 8)) = None"
    by (simp add: validateCostInput_def trim_def is_ws_def array_includes_def allowedCategories_def js_le_def)
  have m: "map user_id (users store1) = [Finite 1001]"
    by (simp add: store1_def alice_def)
  show ?thesis
    using m v createCost_unknown_user [OF h, of env1 "''milk''" "''food''" "Finite 8" JUndefined
        "JString ''milk''" "JString ''food''" "JNumber (Finite 8)"]
    by simp
qed

text \<open>
  C8: when \<open>createCost\<close> succeeds its status is 201 and its payload has exactly the five
  keys \<open>description\<close>, \<open>category\<close>, \<open>userid\<close>, \<open>sum\<close>, \<open>date\<close>, in this order, with the values
  of the record it saved; neither the \<open>_id\<close> of the record nor the \<open>user\<close> reference to the
  owner is among them.
\<close>

theorem createCost_payload:
  "createCost e st d c u s dt = (Data n p, st') \<Longrightarrow>
     n = 201
     \<and> map fst p = [''description'', ''category'', ''userid'', ''sum'', ''date'']
     \<and> ''_id'' \<notin> fst ` set p \<and> ''user'' \<notin> fst ` set p
     \<and> (\<exists>savedCost. costs st' = costs st @ [savedCost]
            \<and> p = [(''description'', JString (description savedCost)),
                    (''category'', JString (category savedCost)),
                    (''userid'', JNumber (userid savedCost)),
                    (''sum'', JNumber (sum_c savedCost)),
                    (''date'', JDate (date savedCost))])"
  by (auto simp: createCost_def Cost_save_def Let_def split: option.splits sum.splits if_splits)

theorem createCost_payload_witness:
  "createCost env1 store1 ''milk'' ''food'' (Finite 1001) (Finite 8) (JNumber (Finite 1738368000000))
     = (Data 201 [(''description'', JString ''milk''), (''category'', JString ''food''),
                  (''userid'', JNumber (Finite 1001)), (''sum'', JNumber (Finite 8)),
                  (''date'', JDate 1738368000000)],
        store1 \<lparr> costs := [(cost_of 1 ''food'' 8 1738368000000)
                               \<lparr> createdAt := 1739181600000, updatedAt := 1739181600000 \<rparr>],
                 next_oid := 2 \<rparr>)"
proof -
  have c: "createCost env1 store1 ''milk'' ''food'' (Finite 1001) (Finite 8) (JNumber (Finite 1738368000000))
     = (Data 201 [(''description'', JString ''milk''), (''category'', JString ''food''),
                  (''userid'', JNumber (Finite 1001)), (''sum'', JNumber (Finite 8)),
                  (''date'', JDate 1738368000000)],
        store1 \<lparr> costs := [(cost_of 1 ''food'' 8 1738368000000)
                               \<lparr> createdAt := 1739181600000, updatedAt := 1739181600000 \<rparr>],
                 next_oid := 2 \<rparr>)"
    by (simp add: createCost_def Cost_save_def User_findOne_def store1_def alice_def env1_def
          allowedCategories_def cost_of_def TimeClip_def js_trunc_def Let_def)
  from createCost_payload [OF c] c show ?thesis by simp
qed

text \<open>
  C10: \<open>createCost\<close> takes every falsy \<open>date\<close>, among them \<open>undefined\<close>, \<open>null\<close>, \<open>0\<close>, the
  empty string and \<open>false\<close>, for an omitted one: for an existing user and fields the schema
  accepts, the record it saves and the payload it returns carry the time of the clock,
  whatever the date was. So the epoch timestamp \<open>0\<close> is not stored as given.
\<close>

theorem createCost_falsy_date:
  "\<not> truthy dt \<Longrightarrow> User_findOne st u = Some owner \<Longrightarrow> d \<noteq> [] \<Longrightarrow> c \<in> set allowedCategories \<Longrightarrow>
     createCost e st d c u s dt
       = (Data 201 [(''description'', JString d), (''category'', JString c),
                    (''userid'', JNumber u), (''sum'', JNumber s), (''date'', JDate (now e))],
          st \<lparr> costs := costs st @ [\<lparr> cost_oid = next_oid st, description = d, category = c,
                                       userid = u, user = user_oid owner, sum_c = s,
                                       date = now e, createdAt = now e, updatedAt = now e \<rparr>],
               next_oid := Suc (next_oid st) \<rparr>)
     \<and> \<not> truthy JUndefined \<and> \<not> truthy JNull \<and> \<not> truthy (JNumber (Finite 0))
     \<and> \<not> truthy (JString []) \<and> \<not> truthy (JBool False)"
  by (simp add: createCost_def Cost_save_def Let_def)

theorem createCost_falsy_date_witness:
  "\<not> truthy (JNumber (Finite 0)) \<and> User_findOne store1 (Finite 1001) = Some alice
   \<and> castDate env1 (JNumber (Finite 0)) = Some 0
   \<and> createCost env1 store1 ''milk'' ''food'' (Finite 1001) (Finite 8) (JNumber (Finite 0))
       = (Data 201 [(''description'', JString ''milk''), (''category'', JString ''food''),
                    (''userid'', JNumber (Finite 1001)), (''sum'', JNumber (Finite 8)),
                    (''date'', JDate 1739181600000)],
          store1 \<lparr> costs := [(cost_of 1 ''food'' 8 1739181600000)], next_oid := 2 \<rparr>)"
proof -
  have h1: "\<not> truthy (JNumber (Finite 0))" by simp
  have h2: "User_findOne store1 (Finite 1001) = Some alice"
    by (simp add: User_findOne_def store1_def alice_def)
  have h3: "''milk'' \<noteq> []" by simp
  have h4: "''food'' \<in> set allowedCategories" by (simp add: allowedCategories_def)
  show ?thesis
    using h1 h2 createCost_falsy_date [OF h1 h2 h3 h4, of env1 "Finite 8"]
    by (simp add: store1_def alice_def env1_def cost_of_def TimeClip_def js_trunc_def)
qed

section \<open>Properties of the user controller\<close>

text \<open>
  C6: when the id of a new user is the id of a user of the store, \<open>createUser\<close> answers
  with the conflict (status 400, \<open>User ID already exists.\<close>) from its own lookup, before
  any \<open>save\<close>, and the store it leaves is the store it found, the existing user included.
\<close>

theorem createUser_existing_id:
  "\<exists>x\<in>set (users st). user_id x = i \<Longrightarrow>
     createUser e st i fname lname b ms = (Error 400 ''User ID already exists.'', st)"
proof -
  assume "\<exists>x\<in>set (users st). user_id x = i"
  then have "User_findOne st i \<noteq> None" by (simp add: find_None_users)
  then show ?thesis by (auto simp: createUser_def)
qed

theorem createUser_existing_id_witness:
  "(\<exists>x\<in>set (users store1). user_id x = Finite 1001)
   \<and> createUser env1 store1 (Finite 1001) ''C'' ''D'' (JNumber (Finite 0)) ''married''
       = (Error 400 ''User ID already exists.'', store1)
   \<and> users store1 = [alice]"
proof -
  have h: "\<exists>x\<in>set (users store1). user_id x = Finite 1001"
    by (simp add: store1_def alice_def)
  show ?thesis
    using h createUser_existing_id [OF h, of env1 "''C''" "''D''" "JNumber (Finite 0)" "''married''"]
    by (simp add: store1_def)
qed

subsection \<open>Rounding\<close>

text \<open>
  \<open>ilog2\<close> is the exponent: a positive number lies between the power of two it names and
  the next one.
\<close>

lemma pow2_Suc: "pow2 (k + 1) = 2 * pow2 k"
proof (cases "0 \<le> k")
  case True
  then show ?thesis by (simp add: pow2_def nat_add_distrib)
next
  case False
  then have "nat (- k) = Suc (nat (- (k + 1)))" by simp
  then show ?thesis using False by (simp add: pow2_def)
qed

lemma pow2_pred: "pow2 (k - 1) = pow2 k / 2"
  using pow2_Suc [of "k - 1"] by simp

lemma ilog2_bounds: "0 < x \<Longrightarrow> pow2 (ilog2 x) \<le> x \<and> x < 2 * pow2 (ilog2 x)"
proof (induction x rule: ilog2.induct)
  case (1 x)
  show ?case
  proof (cases "2 \<le> x")
    case True
    then have "pow2 (ilog2 (x / 2)) \<le> x / 2 \<and> x / 2 < 2 * pow2 (ilog2 (x / 2))"
      using "1.IH"(1) "1.prems" by simp
    moreover have "ilog2 x = ilog2 (x / 2) + 1"
      using True "1.prems" by (subst ilog2.simps) simp
    ultimately show ?thesis by (simp add: pow2_Suc)
  next
    case False
    show ?thesis
    proof (cases "x < 1")
      case True
      then have "pow2 (ilog2 (x * 2)) \<le> x * 2 \<and> x * 2 < 2 * pow2 (ilog2 (x * 2))"
        using "1.IH"(2) "1.prems" False by simp
      moreover have "ilog2 x = ilog2 (x * 2) - 1"
        using True False "1.prems" by (subst ilog2.simps) simp
      ultimately show ?thesis by (simp add: pow2_pred)
    next
      case g: False
      have "ilog2 x = 0" using False g "1.prems" by (subst ilog2.simps) simp
      then show ?thesis using False g by (simp add: pow2_def)
    qed
  qed
qed







section \<open>Properties of the calendar\<close>

text \<open>
  \<open>YearFromTime\<close> meets its definition in the language: the year it gives starts no later
  than the day of \<open>t\<close>, and the next year starts after it.
\<close>

lemma DayFromYear_bounds:
  "400 * DayFromYear y \<le> 146097 * y - 287810497"
  "146097 * y - 287811697 \<le> 400 * DayFromYear y"
proof -
  define a where "a = (y - 1969) div 4"
  define b where "b = (y - 1901) div 100"
  define c where "c = (y - 1601) div 400"
  have a: "4 * a \<le> y - 1969" "y - 1969 < 4 * a + 4" unfolding a_def by linarith+
  have b: "100 * b \<le> y - 1901" "y - 1901 < 100 * b + 100" unfolding b_def by linarith+
  have c: "400 * c \<le> y - 1601" "y - 1601 < 400 * c + 400" unfolding c_def by linarith+
  have d: "400 * DayFromYear y = 146000 * y - 287620000 + 400 * a - 400 * b + 400 * c"
    by (simp add: DayFromYear_def a_def b_def c_def)
  show "400 * DayFromYear y \<le> 146097 * y - 287810497" unfolding d using a b c by linarith
  show "146097 * y - 287811697 \<le> 400 * DayFromYear y" unfolding d using a b c by linarith
qed

lemma YearFromTime_bounds:
  "DayFromYear (YearFromTime t) \<le> Day t \<and> Day t < DayFromYear (YearFromTime t + 1)"
proof -
  define d where "d = Day t"
  define q where "q = (d * 400) div 146097"
  have q: "146097 * q \<le> 400 * d" "400 * d < 146097 * q + 146097" unfolding q_def by linarith+
  define lo where "lo = DayFromYear (1970 + q - 1)"
  define hi where "hi = DayFromYear (1970 + q + 1 + 1)"
  have "400 * lo \<le> 146097 * q - 145504"
    using DayFromYear_bounds(1) [of "1970 + q - 1"] by (simp add: lo_def algebra_simps)
  then have lo: "lo \<le> d" using q by linarith
  have "146097 * q + 291587 \<le> 400 * hi"
    using DayFromYear_bounds(2) [of "1970 + q + 1 + 1"] by (simp add: hi_def algebra_simps)
  then have hi: "d < hi" using q by linarith
  show ?thesis
    unfolding YearFromTime_def Let_def d_def [symmetric] q_def [symmetric]
    using lo hi unfolding lo_def hi_def by auto
qed

section \<open>Properties of the monthly report\<close>

lemma keys_obj_set: "k \<in> fst ` set g \<Longrightarrow> map fst (obj_set g k v) = map fst g"
  by (induction g) (auto simp: obj_set_def)

lemma obj_set_append:
  assumes d: "distinct (map fst g)" and m: "map_of g k = Some arr"
  shows "obj_set g k (arr @ [x]) = map (\<lambda>(k', v'). (k', if k' = k then v' @ [x] else v')) g"
proof -
  have kin: "k \<in> fst ` set g" using m by (meson domI domIff map_of_eq_None_iff)
  have "\<And>k' v'. (k', v') \<in> set g \<Longrightarrow> k' = k \<Longrightarrow> v' = arr"
    using d m by simp
  then have "map (\<lambda>(k', v'). if k' = k then (k', arr @ [x]) else (k', v')) g
           = map (\<lambda>(k', v'). (k', if k' = k then v' @ [x] else v')) g"
    by (intro map_cong) auto
  then show ?thesis using kin by (simp add: obj_set_def)
qed

lemma push_costs_Some:
  "distinct (map fst g) \<Longrightarrow> \<forall>c\<in>set cs. category c \<in> fst ` set g \<Longrightarrow>
     push_costs z g cs
       = Some (map (\<lambda>(k, v). (k, v @ map (report_entry z) (filter (\<lambda>c. category c = k) cs))) g)"
proof (induction cs arbitrary: g)
  case Nil
  then show ?case by (simp add: case_prod_beta)
next
  case (Cons c cs)
  let ?k = "category c"
  have kin: "?k \<in> fst ` set g" using Cons.prems(2) by simp
  then obtain arr where m: "map_of g ?k = Some arr"
    by (metis map_of_eq_None_iff not_Some_eq)
  let ?g' = "obj_set g ?k (arr @ [report_entry z c])"
  have keys: "map fst ?g' = map fst g" by (rule keys_obj_set [OF kin])
  have d': "distinct (map fst ?g')" using Cons.prems(1) keys by simp
  have in': "\<forall>c\<in>set cs. category c \<in> fst ` set ?g'"
  proof -
    have "fst ` set ?g' = fst ` set g" using keys by (metis set_map)
    then show ?thesis using Cons.prems(2) by simp
  qed
  have g': "?g' = map (\<lambda>(k', v'). (k', if k' = ?k then v' @ [report_entry z c] else v')) g"
    by (rule obj_set_append [OF Cons.prems(1) m])
  have "push_costs z g (c # cs) = push_costs z ?g' cs" using m by simp
  also have "\<dots> = Some (map (\<lambda>(k, v). (k, v @ map (report_entry z) (filter (\<lambda>c. category c = k) cs))) ?g')"
    by (rule Cons.IH [OF d' in'])
  also have "map (\<lambda>(k, v). (k, v @ map (report_entry z) (filter (\<lambda>c. category c = k) cs))) ?g'
           = map (\<lambda>(k, v). (k, v @ map (report_entry z) (filter (\<lambda>c. category c = k) (c # cs)))) g"
    unfolding g' by (auto simp: case_prod_beta)
  finally show ?case .
qed

lemma push_costs_None:
  "\<not> (\<forall>c\<in>set cs. category c \<in> fst ` set g) \<Longrightarrow> push_costs z g cs = None"
proof (induction cs arbitrary: g)
  case Nil
  then show ?case by simp
next
  case (Cons c cs)
  show ?case
  proof (cases "map_of g (category c)")
    case None
    then show ?thesis by simp
  next
    case (Some arr)
    then have kin: "category c \<in> fst ` set g" by (meson domI domIff map_of_eq_None_iff)
    let ?g' = "obj_set g (category c) (arr @ [report_entry z c])"
    have "map fst ?g' = map fst g" by (rule keys_obj_set [OF kin])
    then have "fst ` set ?g' = fst ` set g" by (metis set_map)
    then have "\<not> (\<forall>c\<in>set cs. category c \<in> fst ` set ?g')"
      using Cons.prems kin by simp
    then have "push_costs z ?g' cs = None" by (rule Cons.IH)
    then show ?thesis using Some by simp
  qed
qed

lemma groupedCosts_init:
  "foldl (\<lambda>g category'. obj_set g category' []) []
     [''food'', ''health'', ''housing'', ''sport'', ''education'']
   = [(''food'', []), (''health'', []), (''housing'', []), (''sport'', []), (''education'', [])]"
  by (simp add: obj_set_def)

lemma fetchMonthlyReport_eq:
  "fetchMonthlyReport e st i y m =
     (let found = Cost_find st (ToNumber i)
                    (new_Date (tza e) (ToNumber y) (js_sub (ToNumber m) (Finite 1)) (Finite 1))
                    (new_Date (tza e) (ToNumber y) (ToNumber m) (Finite 0))
      in if \<forall>c\<in>set found. category c \<in> set allowedCategories
         then Data 200
                \<lparr> report_userid = ToNumber i, report_year = ToNumber y, report_month = ToNumber m,
                  report_costs =
                    map (\<lambda>k. [(k, map (report_entry (tza e)) (filter (\<lambda>c. category c = k) found))])
                      allowedCategories \<rparr>
         else Error 500 ''TypeError'')"
proof -
  let ?found = "Cost_find st (ToNumber i)
                    (new_Date (tza e) (ToNumber y) (js_sub (ToNumber m) (Finite 1)) (Finite 1))
                    (new_Date (tza e) (ToNumber y) (ToNumber m) (Finite 0))"
  let ?g0 = "[(''food'', []), (''health'', []), (''housing'', []), (''sport'', []), (''education'', [])] :: grouped"
  have keys: "fst ` set ?g0 = set allowedCategories" by (simp add: allowedCategories_def)
  have d: "distinct (map fst ?g0)" by simp
  show ?thesis
  proof (cases "\<forall>c\<in>set ?found. category c \<in> set allowedCategories")
    case True
    then have "\<forall>c\<in>set ?found. category c \<in> fst ` set ?g0" unfolding keys .
    from push_costs_Some [OF d this, of "tza e"] True show ?thesis
      unfolding fetchMonthlyReport_def groupedCosts_init Let_def
      by (simp add: allowedCategories_def)
  next
    case False
    then have "\<not> (\<forall>c\<in>set ?found. category c \<in> fst ` set ?g0)" unfolding keys .
    from push_costs_None [OF this, of "tza e"] False show ?thesis
      unfolding fetchMonthlyReport_def groupedCosts_init Let_def
      by (simp add: allowedCategories_def)
  qed
qed



subsection \<open>Dates of the examples\<close>

lemma month_before: "js_sub (Finite 2) (Finite 1) = Finite 1"
  by (simp add: js_sub_def fl_def ilog2.simps pow2_def round_half_even_def Let_def)

lemma MakeDay_examples:
  "MakeDay 2024 1 1 = 19754" "MakeDay 2024 2 0 = 19782"
  "MakeDay 2025 1 1 = 20120" "MakeDay 2025 2 0 = 20147"
  by (simp_all add: MakeDay_def DayFromYear_def DaysInYear_def MonthStarts_def Let_def)

lemma new_Date_examples:
  "new_Date 0 (Finite 2024) (Finite 1) (Finite 1) = Some 1706745600000"
  "new_Date 0 (Finite 2024) (Finite 2) (Finite 0) = Some 1709164800000"
  "new_Date 0 (Finite 2025) (Finite 1) (Finite 1) = Some 1738368000000"
  "new_Date 0 (Finite 2025) (Finite 2) (Finite 0) = Some 1740700800000"
  by (simp_all add: new_Date_def js_trunc_def MakeDay_examples TimeClip_def UTC_def
        MakeDate_def msPerDay_def)

lemma Day_examples:
  "Day 1709164800000 = 19782" "Day 1709208000000 = 19782" "Day 1738368000000 = 20120"
  "Day 1738454400000 = 20121" "Day 1740700800000 = 20147" "Day 1739181600000 = 20129"
  by (simp_all add: Day_def msPerDay_def)

lemma YearFromTime_examples:
  "YearFromTime 1709164800000 = 2024" "YearFromTime 1709208000000 = 2024"
  "YearFromTime 1738368000000 = 2025" "YearFromTime 1738454400000 = 2025"
  "YearFromTime 1740700800000 = 2025" "YearFromTime 1739181600000 = 2025"
  by (simp_all add: YearFromTime_def Day_examples DayFromYear_def Let_def)

lemma DayWithinYear_examples:
  "DayWithinYear 1709164800000 = 59" "DayWithinYear 1709208000000 = 59"
  "DayWithinYear 1738368000000 = 31" "DayWithinYear 1738454400000 = 32"
  "DayWithinYear 1740700800000 = 58"
  by (simp_all add: DayWithinYear_def Day_examples YearFromTime_examples DayFromYear_def)

lemma InLeapYear_examples:
  "InLeapYear 1709164800000 = 1" "InLeapYear 1709208000000 = 1"
  "InLeapYear 1738368000000 = 0" "InLeapYear 1738454400000 = 0"
  "InLeapYear 1740700800000 = 0"
  by (simp_all add: InLeapYear_def YearFromTime_examples DaysInYear_def)

lemma MonthFromTime_examples:
  "MonthFromTime 1709164800000 = 1" "MonthFromTime 1709208000000 = 1"
  "MonthFromTime 1738368000000 = 1" "MonthFromTime 1738454400000 = 1"
  "MonthFromTime 1740700800000 = 1"
  by (simp_all add: MonthFromTime_def DayWithinYear_examples InLeapYear_examples MonthStarts_def)

lemma DateFromTime_examples:
  "DateFromTime 1709164800000 = 29" "DateFromTime 1709208000000 = 29"
  "DateFromTime 1738368000000 = 1" "DateFromTime 1738454400000 = 2"
  "DateFromTime 1740700800000 = 28"
  by (simp_all add: DateFromTime_def DayWithinYear_examples InLeapYear_examples
        MonthFromTime_examples MonthStarts_def)

lemmas local_examples =
  getDate_def getMonth_def getFullYear_def LocalTime_def YearFromTime_examples
  MonthFromTime_examples DateFromTime_examples

lemma cost_of_sel:
  "category (cost_of i k x d) = k" "userid (cost_of i k x d) = Finite 1001"
  "date (cost_of i k x d) = d" "sum_c (cost_of i k x d) = Finite x"
  "description (cost_of i k x d) = ''milk''"
  by (simp_all add: cost_of_def)

text \<open>
  The shape of a report: when every matching expense has one of the five categories,
  the \<open>costs\<close> are five objects of one key each, for \<open>food\<close>, \<open>health\<close>, \<open>housing\<close>, \<open>sport\<close>,
  \<open>education\<close> in this order, each key with the entries of the matching expenses of that
  category in the order of the store, so with the empty sequence when there is none. A
  matching expense of another category makes the call end in the error 500 instead.
\<close>

lemma fetchMonthlyReport_costs_shape:
  "let found = Cost_find st (ToNumber i)
                 (new_Date (tza e) (ToNumber y) (js_sub (ToNumber m) (Finite 1)) (Finite 1))
                 (new_Date (tza e) (ToNumber y) (ToNumber m) (Finite 0));
       groups = map (\<lambda>k. [(k, map (report_entry (tza e)) (filter (\<lambda>c. category c = k) found))])
                  [''food'', ''health'', ''housing'', ''sport'', ''education''];
       r = \<lparr> report_userid = ToNumber i, report_year = ToNumber y, report_month = ToNumber m,
             report_costs = groups \<rparr>
   in ((\<forall>c\<in>set found. category c \<in> set allowedCategories) \<longrightarrow>
         fetchMonthlyReport e st i y m = Data 200 r)
      \<and> (\<not> (\<forall>c\<in>set found. category c \<in> set allowedCategories) \<longrightarrow>
         fetchMonthlyReport e st i y m = Error 500 ''TypeError'')
      \<and> length groups = 5
      \<and> map (map fst) groups = [[''food''], [''health''], [''housing''], [''sport''], [''education'']]
      \<and> (\<forall>k\<in>set allowedCategories. (\<forall>c\<in>set found. category c \<noteq> k) \<longrightarrow> [(k, [])] \<in> set groups)
      \<and> (found = [] \<longrightarrow>
           fetchMonthlyReport e st i y m
             = Data 200 \<lparr> report_userid = ToNumber i, report_year = ToNumber y,
                          report_month = ToNumber m,
                          report_costs = [[(''food'', [])], [(''health'', [])], [(''housing'', [])],
                                          [(''sport'', [])], [(''education'', [])]] \<rparr>)"
proof -
  have e: "\<And>k cs. (\<forall>c\<in>set cs. category c \<noteq> k) \<Longrightarrow> filter (\<lambda>c. category c = k) cs = []"
    by (simp add: filter_empty_conv)
  show ?thesis
    unfolding fetchMonthlyReport_eq Let_def
    by (auto simp: allowedCategories_def e)
qed

text \<open>
  C1: the filter of the monthly report keeps the expenses from the first to the last day
  of the month, both days included. The code does not do this for the last day: its
  upper bound is 00:00:00.000 of that day. Of the two expenses of 2024-02-29 in
  \<open>store3\<close>, the report of February 2024 holds the one at midnight and not the one at
  noon, although the latter is dated the 29th of February 2024 as well.
\<close>

theorem last_day_after_midnight_excluded:
  "getFullYear (tza env1) 1709208000000 = 2024 \<and> getMonth (tza env1) 1709208000000 = 1
   \<and> getDate (tza env1) 1709208000000 = 29
   \<and> cost_of 2 ''food'' 5 1709208000000 \<in> set (costs store3)
   \<and> fetchMonthlyReport env1 store3 (JNumber (Finite 1001)) (JNumber (Finite 2024)) (JNumber (Finite 2))
       = Data 200
           \<lparr> report_userid = Finite 1001, report_year = Finite 2024, report_month = Finite 2,
             report_costs =
               [[(''food'', [\<lparr> entry_sum = Finite 8, entry_description = ''milk'', entry_day = 29 \<rparr>])],
                [(''health'', [])], [(''housing'', [])], [(''sport'', [])], [(''education'', [])]] \<rparr>"
proof -
  have t: "tza env1 = 0" by (simp add: env1_def)
  have f: "Cost_find store3 (Finite 1001) (Some 1706745600000) (Some 1709164800000)
           = [cost_of 1 ''food'' 8 1709164800000]"
    by (simp add: Cost_find_def store3_def cost_of_def)
  have c: "\<And>i k x d. category (cost_of i k x d) = k"
    by (simp add: cost_of_def)
  have en: "\<And>i k x. report_entry 0 (cost_of i k x 1709164800000)
            = \<lparr> entry_sum = Finite x, entry_description = ''milk'', entry_day = 29 \<rparr>"
    by (simp add: report_entry_def cost_of_def local_examples)
  have r: "fetchMonthlyReport env1 store3 (JNumber (Finite 1001)) (JNumber (Finite 2024)) (JNumber (Finite 2))
       = Data 200
           \<lparr> report_userid = Finite 1001, report_year = Finite 2024, report_month = Finite 2,
             report_costs =
               [[(''food'', [\<lparr> entry_sum = Finite 8, entry_description = ''milk'', entry_day = 29 \<rparr>])],
                [(''health'', [])], [(''housing'', [])], [(''sport'', [])], [(''education'', [])]] \<rparr>"
    unfolding fetchMonthlyReport_eq t
    by (simp add: month_before new_Date_examples f Let_def c en allowedCategories_def)
  show ?thesis using r by (simp add: t local_examples store3_def)
qed



section \<open>Properties of the update\<close>

lemma find_update_first:
  "find P xs = Some x \<Longrightarrow> P (f x) \<Longrightarrow> find P (update_first P f xs) = Some (f x)"
  by (induction xs) (auto split: if_splits)

lemma length_update_first: "length (update_first P f xs) = length xs"
  by (induction xs) simp_all

lemma others_update_first:
  "(\<And>x. P x \<Longrightarrow> P (f x)) \<Longrightarrow>
     filter (\<lambda>x. \<not> P x) (update_first P f xs) = filter (\<lambda>x. \<not> P x) xs"
  by (induction xs) simp_all

lemma cost_oid_merge_update [simp]: "cost_oid (merge_update t upd c) = cost_oid c"
  by (simp add: merge_update_def)

lemma Cost_findById_None: "(Cost_findById st i = None) = (\<forall>c\<in>set (costs st). cost_oid c \<noteq> i)"
  by (auto simp: Cost_findById_def find_None_iff)

lemma cast_field_Some:
  assumes "cast_field conv p = Some q"
  shows "case p of None \<Rightarrow> q = None | Some v \<Rightarrow> q \<noteq> None \<and> conv v = q"
proof (cases p)
  case None
  then show ?thesis using assms by (simp add: cast_field_def)
next
  case (Some v)
  then show ?thesis using assms by (cases "conv v") (auto simp: cast_field_def)
qed

lemma cast_update_Some:
  assumes "cast_update e upd = Some u"
  shows "cast_field (castString e) (upd_description upd) = Some (set_description u)"
    and "cast_field (castString e) (upd_category upd) = Some (set_category u)"
    and "cast_field (castNumber e) (upd_userid upd) = Some (set_userid u)"
    and "cast_field (castRef e) (upd_user upd) = Some (set_user u)"
    and "cast_field (castNumber e) (upd_sum upd) = Some (set_sum u)"
    and "cast_field (castDate e) (upd_date upd) = Some (set_date u)"
  using assms by (auto simp: cast_update_def split: option.splits)

lemma castObjectId_examples:
  "castObjectId env1 ''abc'' = None"
  "castObjectId env1 ''000000000000000000000001'' = Some 1"
  "castObjectId env1 ''000000000000000000000002'' = Some 2"
  "castObjectId env1 ''000000000000000000000063'' = Some 99"
  by (simp_all add: env1_def is_digit_def digit_val_def digit_chars_def digits_val_def)

lemma cast_update_examples:
  "cast_update env1 upd1
     = Some \<lparr> set_description = Some '' '', set_category = Some ''travel'', set_userid = None,
              set_user = None, set_sum = Some (Finite (- 5)), set_date = None \<rparr>"
  "cast_update env1 upd2 = None"
  "cast_update env1 upd3
     = Some \<lparr> set_description = None, set_category = Some ''travel'', set_userid = None,
              set_user = None, set_sum = None, set_date = None \<rparr>"
  by (simp_all add: cast_update_def cast_field_def env1_def upd1_def upd2_def upd3_def)

text \<open>
  The text \<open>abc\<close> is the identifier of no cost of \<open>store2\<close>, and still the answer to an
  update of it is 500, not 404: the driver refuses the identifier and \<open>updateCost\<close>
  catches what it raises. A sum that is no number is refused in the same way for an
  existing cost, and is not stored as given.
\<close>

theorem updateCost_malformed_id:
  "map cost_oid (costs store2) = [1, 2, 3, 4]
   \<and> castObjectId env1 ''abc'' = None
   \<and> updateCost env1 store2 ''abc'' upd1 = (Error 500 ''CastError'', store2)
   \<and> status (fst (updateCost env1 store2 ''abc'' upd1)) \<noteq> 404
   \<and> castObjectId env1 ''000000000000000000000002'' = Some 2
   \<and> upd_sum upd2 = Some (JString ''abc'')
   \<and> updateCost env1 store2 ''000000000000000000000002'' upd2 = (Error 500 ''CastError'', store2)"
  by (simp add: updateCost_def Cost_findByIdAndUpdate_def castObjectId_examples
        cast_update_examples)
     (simp add: store2_def cost_of_def upd2_def)

text \<open>
  C7, as the code has it: when the driver converts the identifier and the values of the
  update, \<open>updateCost\<close>, and \<open>editCost\<close> which only calls it, answers 404 exactly when no
  cost has the identifier. Otherwise it answers 200 with the record as merged: every
  property of the update that is there replaces the one of the record by its converted
  value, whatever that is, and the others stay; the validator is not consulted, so a
  description of white space, a category outside the five and a negative sum are
  stored. The other costs and the users stay as they are. When the driver refuses the
  identifier or a value, the answer is 500 and the store is unchanged.
\<close>

theorem updateCost_merge:
  "(castObjectId e costId = None \<or> cast_update e upd = None \<longrightarrow>
      updateCost e st costId upd = (Error 500 ''CastError'', st))
   \<and> (\<forall>i u. castObjectId e costId = Some i \<and> cast_update e upd = Some u \<longrightarrow>
        ((status (fst (updateCost e st costId upd)) = 404) = (\<forall>x\<in>set (costs st). cost_oid x \<noteq> i))
        \<and> ((\<forall>x\<in>set (costs st). cost_oid x \<noteq> i) \<longrightarrow>
             updateCost e st costId upd = (Error 404 ''Cost not found.'', st))
        \<and> (\<forall>c. Cost_findById st i = Some c \<longrightarrow>
             (\<exists>updatedCost st'.
                updateCost e st costId upd = (Data 200 updatedCost, st')
                \<and> st' = st \<lparr> costs := update_first (\<lambda>x. cost_oid x = i)
                                          (merge_update (now e) u) (costs st) \<rparr>
                \<and> Cost_findById st' i = Some updatedCost
                \<and> length (costs st') = length (costs st)
                \<and> filter (\<lambda>x. cost_oid x \<noteq> i) (costs st') = filter (\<lambda>x. cost_oid x \<noteq> i) (costs st)
                \<and> cost_oid updatedCost = i
                \<and> (case upd_description upd of None \<Rightarrow> description updatedCost = description c
                     | Some v \<Rightarrow> castString e v = Some (description updatedCost))
                \<and> (case upd_category upd of None \<Rightarrow> category updatedCost = category c
                     | Some v \<Rightarrow> castString e v = Some (category updatedCost))
                \<and> (case upd_userid upd of None \<Rightarrow> userid updatedCost = userid c
                     | Some v \<Rightarrow> castNumber e v = Some (userid updatedCost))
                \<and> (case upd_sum upd of None \<Rightarrow> sum_c updatedCost = sum_c c
                     | Some v \<Rightarrow> castNumber e v = Some (sum_c updatedCost))
                \<and> (case upd_date upd of None \<Rightarrow> date updatedCost = date c
                     | Some v \<Rightarrow> castDate e v = Some (date updatedCost)))))
   \<and> editCost e st costId upd = updateCost e st costId upd"
proof -
  have a: "castObjectId e costId = None \<or> cast_update e upd = None \<Longrightarrow>
      updateCost e st costId upd = (Error 500 ''CastError'', st)"
    by (auto simp: updateCost_def Cost_findByIdAndUpdate_def split: option.splits)
  have b: "(status (fst (updateCost e st costId upd)) = 404) = (\<forall>x\<in>set (costs st). cost_oid x \<noteq> i)"
    if "castObjectId e costId = Some i" "cast_update e upd = Some u" for i u
    using that
    by (cases "Cost_findById st i")
       (auto simp: updateCost_def Cost_findByIdAndUpdate_def Cost_findById_None [symmetric])
  have c: "(\<forall>x\<in>set (costs st). cost_oid x \<noteq> i) \<longrightarrow>
             updateCost e st costId upd = (Error 404 ''Cost not found.'', st)"
    if "castObjectId e costId = Some i" "cast_update e upd = Some u" for i u
    using that
    by (simp add: updateCost_def Cost_findByIdAndUpdate_def Cost_findById_None [symmetric])
  have d: "\<exists>updatedCost st'.
                updateCost e st costId upd = (Data 200 updatedCost, st')
                \<and> st' = st \<lparr> costs := update_first (\<lambda>x. cost_oid x = i)
                                          (merge_update (now e) u) (costs st) \<rparr>
                \<and> Cost_findById st' i = Some updatedCost
                \<and> length (costs st') = length (costs st)
                \<and> filter (\<lambda>x. cost_oid x \<noteq> i) (costs st') = filter (\<lambda>x. cost_oid x \<noteq> i) (costs st)
                \<and> cost_oid updatedCost = i
                \<and> (case upd_description upd of None \<Rightarrow> description updatedCost = description c
                     | Some v \<Rightarrow> castString e v = Some (description updatedCost))
                \<and> (case upd_category upd of None \<Rightarrow> category updatedCost = category c
                     | Some v \<Rightarrow> castString e v = Some (category updatedCost))
                \<and> (case upd_userid upd of None \<Rightarrow> userid updatedCost = userid c
                     | Some v \<Rightarrow> castNumber e v = Some (userid updatedCost))
                \<and> (case upd_sum upd of None \<Rightarrow> sum_c updatedCost = sum_c c
                     | Some v \<Rightarrow> castNumber e v = Some (sum_c updatedCost))
                \<and> (case upd_date upd of None \<Rightarrow> date updatedCost = date c
                     | Some v \<Rightarrow> castDate e v = Some (date updatedCost))"
    if ci: "castObjectId e costId = Some i" and cu: "cast_update e upd = Some u"
      and f: "Cost_findById st i = Some c" for i u c
  proof -
    from f have f': "find (\<lambda>x. cost_oid x = i) (costs st) = Some c"
      by (simp add: Cost_findById_def)
    then have i: "cost_oid c = i" by (auto simp: find_Some_iff)
    let ?m = "merge_update (now e) u"
    let ?cs = "update_first (\<lambda>x. cost_oid x = i) ?m (costs st)"
    have g: "find (\<lambda>x. cost_oid x = i) ?cs = Some (?m c)"
      by (rule find_update_first [OF f']) (simp add: i)
    have o: "filter (\<lambda>x. cost_oid x \<noteq> i) ?cs = filter (\<lambda>x. cost_oid x \<noteq> i) (costs st)"
      by (rule others_update_first) simp
    have r: "updateCost e st costId upd = (Data 200 (?m c), st \<lparr> costs := ?cs \<rparr>)"
      using ci cu f by (simp add: updateCost_def Cost_findByIdAndUpdate_def)
    have fields:
      "(case upd_description upd of None \<Rightarrow> description (?m c) = description c
         | Some v \<Rightarrow> castString e v = Some (description (?m c)))"
      "(case upd_category upd of None \<Rightarrow> category (?m c) = category c
         | Some v \<Rightarrow> castString e v = Some (category (?m c)))"
      "(case upd_userid upd of None \<Rightarrow> userid (?m c) = userid c
         | Some v \<Rightarrow> castNumber e v = Some (userid (?m c)))"
      "(case upd_sum upd of None \<Rightarrow> sum_c (?m c) = sum_c c
         | Some v \<Rightarrow> castNumber e v = Some (sum_c (?m c)))"
      "(case upd_date upd of None \<Rightarrow> date (?m c) = date c
         | Some v \<Rightarrow> castDate e v = Some (date (?m c)))"
      using cast_update_Some [OF cu, THEN cast_field_Some]
      by (auto simp: merge_update_def split: option.splits)
    show ?thesis
      using r g o i fields
      by (simp add: Cost_findById_def length_update_first)
  qed
  show ?thesis using a b c d by (simp add: editCost_def)
qed


theorem updateCost_merge_witness:
  "castObjectId env1 ''000000000000000000000002'' = Some 2
   \<and> cast_update env1 upd1
       = Some \<lparr> set_description = Some '' '', set_category = Some ''travel'', set_userid = None,
                set_user = None, set_sum = Some (Finite (- 5)), set_date = None \<rparr>
   \<and> Cost_findById store2 2 = Some (cost_of 2 ''health'' 12.5 1738454400000)
   \<and> validateCostInput (JString '' '') (JString ''travel'') (JNumber (Finite 1001)) (JNumber (Finite (- 5)))
       = Some ''Description is required and must be a string.''
   \<and> updateCost env1 store2 ''000000000000000000000002'' upd1
       = (Data 200 \<lparr> cost_oid = 2, description = '' '', category = ''travel'', userid = Finite 1001,
                      user = 0, sum_c = Finite (- 5), date = 1738454400000,
                      createdAt = 1738454400000, updatedAt = 1739181600000 \<rparr>,
          store2 \<lparr> costs := [cost_of 1 ''food'' 8 1738368000000,
                              \<lparr> cost_oid = 2, description = '' '', category = ''travel'',
                                userid = Finite 1001, user = 0, sum_c = Finite (- 5),
                                date = 1738454400000, createdAt = 1738454400000,
                                updatedAt = 1739181600000 \<rparr>,
                              (cost_of 3 ''food'' 100 1738454400000) \<lparr> userid := Finite 7 \<rparr>,
                              cost_of 4 ''sport'' 3 1740700800000] \<rparr>)
   \<and> castObjectId env1 ''000000000000000000000063'' = Some 99
   \<and> map cost_oid (costs store2) = [1, 2, 3, 4]
   \<and> updateCost env1 store2 ''000000000000000000000063'' upd1 = (Error 404 ''Cost not found.'', store2)
   \<and> castObjectId env1 ''abc'' = None
   \<and> updateCost env1 store2 ''abc'' upd1 = (Error 500 ''CastError'', store2)"
proof -
  note ci = castObjectId_examples
  note cu = cast_update_examples(1)
  have f: "Cost_findById store2 2 = Some (cost_of 2 ''health'' 12.5 1738454400000)"
    by (simp add: Cost_findById_def store2_def cost_of_def)
  have n: "\<forall>x\<in>set (costs store2). cost_oid x \<noteq> 99"
    by (simp add: store2_def cost_of_def)
  have k: "map cost_oid (costs store2) = [1, 2, 3, 4]"
    by (simp add: store2_def cost_of_def)
  have v: "validateCostInput (JString '' '') (JString ''travel'') (JNumber (Finite 1001)) (JNumber (Finite (- 5)))
       = Some ''Description is required and must be a string.''"
    by (simp add: validateCostInput_def trim_def is_ws_def)
  have u: "updateCost env1 store2 ''000000000000000000000002'' upd1
       = (Data 200 \<lparr> cost_oid = 2, description = '' '', category = ''travel'', userid = Finite 1001,
                      user = 0, sum_c = Finite (- 5), date = 1738454400000,
                      createdAt = 1738454400000, updatedAt = 1739181600000 \<rparr>,
          store2 \<lparr> costs := [cost_of 1 ''food'' 8 1738368000000,
                              \<lparr> cost_oid = 2, description = '' '', category = ''travel'',
                                userid = Finite 1001, user = 0, sum_c = Finite (- 5),
                                date = 1738454400000, createdAt = 1738454400000,
                                updatedAt = 1739181600000 \<rparr>,
                              (cost_of 3 ''food'' 100 1738454400000) \<lparr> userid := Finite 7 \<rparr>,
                              cost_of 4 ''sport'' 3 1740700800000] \<rparr>)"
    by (simp add: updateCost_def Cost_findByIdAndUpdate_def ci cu f)
       (simp add: store2_def cost_of_def merge_update_def env1_def)
  have e: "updateCost env1 store2 ''000000000000000000000063'' upd1 = (Error 404 ''Cost not found.'', store2)"
    using n ci(4) cu updateCost_merge [of env1 "''000000000000000000000063''" upd1 store2] by blast
  have x: "updateCost env1 store2 ''abc'' upd1 = (Error 500 ''CastError'', store2)"
    using ci(1) updateCost_merge [of env1 "''abc''" upd1 store2] by blast
  show ?thesis
    using ci cu f k v u e x by simp
qed


section \<open>Numbers given as strings\<close>

lemma status_fetchMonthlyReport: "status (fetchMonthlyReport e st i y m) \<noteq> 400"
  by (simp add: fetchMonthlyReport_def Let_def split: option.splits)

lemma ToNumber_examples:
  "ToNumber (JString ''1001'') = Finite 1001" "ToNumber (JString ''2025'') = Finite 2025"
  "ToNumber (JString ''2'') = Finite 2"
  by (simp_all add: StringToNumber_def trim_def is_ws_def prefix_radix_def StrDecimalLiteral_def
        StrUnsignedDecimalLiteral_def is_digit_def digit_val_def digit_chars_def ExponentPart_def
        scale10_def digits_val_def)

lemma report_store2_feb:
  assumes "ToNumber i = Finite 1001" "ToNumber y = Finite 2025" "ToNumber m = Finite 2"
  shows "fetchMonthlyReport env1 store2 i y m
       = Data 200
           \<lparr> report_userid = Finite 1001, report_year = Finite 2025, report_month = Finite 2,
             report_costs =
               [[(''food'', [\<lparr> entry_sum = Finite 8, entry_description = ''milk'', entry_day = 1 \<rparr>])],
                [(''health'', [\<lparr> entry_sum = Finite 12.5, entry_description = ''milk'', entry_day = 2 \<rparr>])],
                [(''housing'', [])],
                [(''sport'', [\<lparr> entry_sum = Finite 3, entry_description = ''milk'', entry_day = 28 \<rparr>])],
                [(''education'', [])]] \<rparr>"
proof -
  have t: "tza env1 = 0" by (simp add: env1_def)
  have f: "Cost_find store2 (Finite 1001) (Some 1738368000000) (Some 1740700800000)
           = [cost_of 1 ''food'' 8 1738368000000, cost_of 2 ''health'' 12.5 1738454400000,
              cost_of 4 ''sport'' 3 1740700800000]"
    by (simp add: Cost_find_def store2_def cost_of_sel)
  have en: "\<And>i k x. report_entry 0 (cost_of i k x 1738368000000)
              = \<lparr> entry_sum = Finite x, entry_description = ''milk'', entry_day = 1 \<rparr>"
    "\<And>i k x. report_entry 0 (cost_of i k x 1738454400000)
              = \<lparr> entry_sum = Finite x, entry_description = ''milk'', entry_day = 2 \<rparr>"
    "\<And>i k x. report_entry 0 (cost_of i k x 1740700800000)
              = \<lparr> entry_sum = Finite x, entry_description = ''milk'', entry_day = 28 \<rparr>"
    by (simp_all add: report_entry_def cost_of_sel local_examples)
  show ?thesis
    unfolding fetchMonthlyReport_eq t assms
    by (simp add: month_before new_Date_examples f Let_def cost_of_sel en allowedCategories_def)
qed

text \<open>
  C9: the validator wants \<open>userid\<close> and \<open>sum\<close> of type number. When either is a string,
  also one that denotes a positive number, \<open>validateCostInput\<close> returns a message and
  \<open>addCost\<close> answers 400 without touching the store. The query of the report is
  different: strings that denote an id, a year from 2000 to the current one and a month
  from 1 to 12 pass the guards of \<open>getMonthlyReport\<close>, which then is the report itself and
  never the answer 400.
\<close>

theorem numeric_strings:
  "(typeof u = TString \<or> typeof s = TString \<longrightarrow>
      (\<exists>msg. validateCostInput d c u s = Some msg
             \<and> addCost e st d c u s dt = (Error 400 msg, st)))
   \<and> (typeof i = TString \<and> typeof y = TString \<and> typeof m = TString
       \<and> truthy i \<and> \<not> isNaN i
       \<and> truthy y \<and> js_le (Finite 2000) (ToNumber y)
       \<and> js_le (ToNumber y) (Finite (real_of_int (getFullYear (tza e) (now e))))
       \<and> truthy m \<and> js_le (Finite 1) (ToNumber m) \<and> js_le (ToNumber m) (Finite 12)
      \<longrightarrow> getMonthlyReport e st i y m = fetchMonthlyReport e st i y m
          \<and> status (getMonthlyReport e st i y m) \<noteq> 400)"
proof -
  have a: "typeof u = TString \<or> typeof s = TString \<Longrightarrow>
      (\<exists>msg. validateCostInput d c u s = Some msg
             \<and> addCost e st d c u s dt = (Error 400 msg, st))"
    by (auto simp: validateCostInput_def addCost_def)
  have b: "truthy i \<and> \<not> isNaN i
       \<and> truthy y \<and> js_le (Finite 2000) (ToNumber y)
       \<and> js_le (ToNumber y) (Finite (real_of_int (getFullYear (tza e) (now e))))
       \<and> truthy m \<and> js_le (Finite 1) (ToNumber m) \<and> js_le (ToNumber m) (Finite 12)
      \<Longrightarrow> getMonthlyReport e st i y m = fetchMonthlyReport e st i y m"
    by (simp add: getMonthlyReport_def js_le_def isNaN_def)
  show ?thesis using a b status_fetchMonthlyReport by metis
qed


theorem numeric_strings_witness:
  "typeof (JString ''1001'') = TString \<and> typeof (JString ''2025'') = TString
   \<and> typeof (JString ''2'') = TString \<and> typeof (JString ''8'') = TString
   \<and> validateCostInput (JString ''milk'') (JString ''food'') (JString ''1001'') (JNumber (Finite 8))
       = Some ''User ID must be a positive number.''
   \<and> addCost env1 store2 (JString ''milk'') (JString ''food'') (JString ''1001'') (JNumber (Finite 8)) JUndefined
       = (Error 400 ''User ID must be a positive number.'', store2)
   \<and> validateCostInput (JString ''milk'') (JString ''food'') (JNumber (Finite 1001)) (JString ''8'')
       = Some ''Sum must be a positive number.''
   \<and> truthy (JString ''1001'') \<and> \<not> isNaN (JString ''1001'')
   \<and> truthy (JString ''2025'') \<and> js_le (Finite 2000) (ToNumber (JString ''2025''))
   \<and> js_le (ToNumber (JString ''2025'')) (Finite (real_of_int (getFullYear (tza env1) (now env1))))
   \<and> truthy (JString ''2'') \<and> js_le (Finite 1) (ToNumber (JString ''2''))
   \<and> js_le (ToNumber (JString ''2'')) (Finite 12)
   \<and> getMonthlyReport env1 store2 (JString ''1001'') (JString ''2025'') (JString ''2'')
       = Data 200
           \<lparr> report_userid = Finite 1001, report_year = Finite 2025, report_month = Finite 2,
             report_costs =
               [[(''food'', [\<lparr> entry_sum = Finite 8, entry_description = ''milk'', entry_day = 1 \<rparr>])],
                [(''health'', [\<lparr> entry_sum = Finite 12.5, entry_description = ''milk'', entry_day = 2 \<rparr>])],
                [(''housing'', [])],
                [(''sport'', [\<lparr> entry_sum = Finite 3, entry_description = ''milk'', entry_day = 28 \<rparr>])],
                [(''education'', [])]] \<rparr>"
proof -
  have v1: "validateCostInput (JString ''milk'') (JString ''food'') (JString ''1001'') (JNumber (Finite 8))
       = Some ''User ID must be a positive number.''"
    by (simp add: validateCostInput_def trim_def is_ws_def array_includes_def allowedCategories_def)
  have v2: "validateCostInput (JString ''milk'') (JString ''food'') (JNumber (Finite 1001)) (JString ''8'')
       = Some ''Sum must be a positive number.''"
    by (simp add: validateCostInput_def trim_def is_ws_def array_includes_def allowedCategories_def
          js_le_def)
  have yr: "getFullYear (tza env1) (now env1) = 2025"
    by (simp add: env1_def local_examples)
  have h: "typeof (JString ''1001'') = TString \<and> typeof (JString ''2025'') = TString
       \<and> typeof (JString ''2'') = TString
       \<and> truthy (JString ''1001'') \<and> \<not> isNaN (JString ''1001'')
       \<and> truthy (JString ''2025'') \<and> js_le (Finite 2000) (ToNumber (JString ''2025''))
       \<and> js_le (ToNumber (JString ''2025'')) (Finite (real_of_int (getFullYear (tza env1) (now env1))))
       \<and> truthy (JString ''2'') \<and> js_le (Finite 1) (ToNumber (JString ''2''))
       \<and> js_le (ToNumber (JString ''2'')) (Finite 12)"
    unfolding yr isNaN_def ToNumber_examples by (simp add: js_le_def)
  have r: "getMonthlyReport env1 store2 (JString ''1001'') (JString ''2025'') (JString ''2'')
           = fetchMonthlyReport env1 store2 (JString ''1001'') (JString ''2025'') (JString ''2'')"
    using h numeric_strings [where e = env1 and st = store2 and i = "JString ''1001''"
        and y = "JString ''2025''" and m = "JString ''2''"]
    by blast
  have a: "addCost env1 store2 (JString ''milk'') (JString ''food'') (JString ''1001'') (JNumber (Finite 8)) JUndefined
       = (Error 400 ''User ID must be a positive number.'', store2)"
    using v1 numeric_strings [where e = env1 and st = store2 and u = "JString ''1001''"
        and s = "JNumber (Finite 8)" and d = "JString ''milk''" and c = "JString ''food''"
        and dt = JUndefined]
    by simp
  show ?thesis
    using v1 v2 h a r report_store2_feb [OF ToNumber_examples]
    by simp
qed


section \<open>A report after an update of the category\<close>

lemma store4_eq:
  "addCost env1 store1 (JString ''milk'') (JString ''food'') (JNumber (Finite 1001))
     (JNumber (Finite 8)) JUndefined
   = (Data 201 [(''description'', JString ''milk''), (''category'', JString ''food''),
                (''userid'', JNumber (Finite 1001)), (''sum'', JNumber (Finite 8)),
                (''date'', JDate 1739181600000)],
      \<lparr> users = [alice], costs = [cost_of 1 ''food'' 8 1739181600000], next_oid = 2 \<rparr>)"
  by (simp add: addCost_def validateCostInput_def trim_def is_ws_def array_includes_def
        allowedCategories_def js_le_def createCost_def Cost_save_def User_findOne_def
        store1_def alice_def env1_def cost_of_def Let_def)

lemma store5_eq:
  "editCost env1 store4 ''000000000000000000000001'' upd3
   = (Data 200 (cost_of 1 ''travel'' 8 1739181600000),
      \<lparr> users = [alice], costs = [cost_of 1 ''travel'' 8 1739181600000], next_oid = 2 \<rparr>)"
  by (simp add: store4_def store4_eq editCost_def updateCost_def Cost_findByIdAndUpdate_def
        castObjectId_examples cast_update_examples Cost_findById_def)
     (simp add: cost_of_def merge_update_def env1_def)

lemma report_store5:
  assumes "ToNumber i = Finite 1001" "ToNumber y = Finite 2025" "ToNumber m = Finite 2"
  shows "fetchMonthlyReport env1 store5 i y m = Error 500 ''TypeError''"
proof -
  have s5: "store5 = \<lparr> users = [alice], costs = [cost_of 1 ''travel'' 8 1739181600000],
                       next_oid = 2 \<rparr>"
    by (simp add: store5_def store5_eq)
  have t: "tza env1 = 0" by (simp add: env1_def)
  have f: "Cost_find store5 (Finite 1001) (Some 1738368000000) (Some 1740700800000)
           = [cost_of 1 ''travel'' 8 1739181600000]"
    by (simp add: Cost_find_def s5 cost_of_sel)
  show ?thesis
    unfolding fetchMonthlyReport_eq t assms
    by (simp add: month_before new_Date_examples f Let_def cost_of_sel allowedCategories_def)
qed

lemma getMonthlyReport_store5:
  "getMonthlyReport env1 store5 (JString ''1001'') (JString ''2025'') (JString ''2'')
   = Error 500 ''TypeError''"
proof -
  have yr: "getFullYear (tza env1) (now env1) = 2025"
    by (simp add: env1_def local_examples)
  have g: "getMonthlyReport env1 store5 (JString ''1001'') (JString ''2025'') (JString ''2'')
           = fetchMonthlyReport env1 store5 (JString ''1001'') (JString ''2025'') (JString ''2'')"
    unfolding getMonthlyReport_def isNaN_def yr ToNumber_examples by simp
  show ?thesis unfolding g by (rule report_store5 [OF ToNumber_examples])
qed

text \<open>
  C2: the \<open>costs\<close> of every monthly report are the five objects of one key each, for
  \<open>food\<close>, \<open>health\<close>, \<open>housing\<close>, \<open>sport\<close>, \<open>education\<close> in this order. The code does not
  give them when a matching expense has another category, which an update can set: a
  valid cost of user 1001 is added, its category is then set to \<open>travel\<close>, and the report
  of the month for that user ends in the error 500, with no \<open>costs\<close> at all.
\<close>

theorem report_fails_after_category_update:
  "addCost env1 store1 (JString ''milk'') (JString ''food'') (JNumber (Finite 1001))
     (JNumber (Finite 8)) JUndefined
   = (Data 201 [(''description'', JString ''milk''), (''category'', JString ''food''),
                (''userid'', JNumber (Finite 1001)), (''sum'', JNumber (Finite 8)),
                (''date'', JDate 1739181600000)], store4)
   \<and> editCost env1 store4 ''000000000000000000000001'' upd3
       = (Data 200 (cost_of 1 ''travel'' 8 1739181600000), store5)
   \<and> fetchMonthlyReport env1 store5 (JString ''1001'') (JString ''2025'') (JString ''2'')
       = Error 500 ''TypeError''
   \<and> fetchMonthlyReport env1 store5 (JNumber (Finite 1001)) (JNumber (Finite 2025))
        (JNumber (Finite 2))
       = Error 500 ''TypeError''"
proof -
  have a4: "addCost env1 store1 (JString ''milk'') (JString ''food'') (JNumber (Finite 1001))
     (JNumber (Finite 8)) JUndefined
   = (Data 201 [(''description'', JString ''milk''), (''category'', JString ''food''),
                (''userid'', JNumber (Finite 1001)), (''sum'', JNumber (Finite 8)),
                (''date'', JDate 1739181600000)], store4)"
    unfolding store4_def store4_eq by simp
  have a5: "editCost env1 store4 ''000000000000000000000001'' upd3
       = (Data 200 (cost_of 1 ''travel'' 8 1739181600000), store5)"
    unfolding store5_def store5_eq by simp
  have r1: "fetchMonthlyReport env1 store5 (JString ''1001'') (JString ''2025'') (JString ''2'')
            = Error 500 ''TypeError''"
    by (rule report_store5 [OF ToNumber_examples])
  have r2: "fetchMonthlyReport env1 store5 (JNumber (Finite 1001)) (JNumber (Finite 2025))
              (JNumber (Finite 2)) = Error 500 ''TypeError''"
    by (rule report_store5) simp_all
  show ?thesis
    unfolding r1 r2 a4 a5 by simp
qed

end
